theory Spec2Isabelle
  imports Complex_Main
begin

section \<open>Data model of the tracker (js/fullbody\_working.js)\<close>

text \<open>
  JavaScript numbers are modelled as exact reals, array indices and pixel sizes as
  naturals. A landmark is the object delivered by the detectors; its coordinates are
  normalised to the frame, and \<open>visibility\<close> is read for pose landmarks only.
\<close>

record LandmarkPoint =
  px :: real
  py :: real
  pz :: real
  visibility :: real

text \<open>The calls made on the 2D context of the canvas, in the order they are made.\<close>

datatype draw_op =
    StrokeStyle string
  | LineWidth nat
  | FillStyle string
  | Font string
  | BeginPath
  | MoveTo real real
  | LineTo real real
  | Stroke
  | Arc real real real
  | Fill
  | FillText nat real real
  | ClearRect real real real real
  | Save
  | Scale int int
  | Translate real real
  | DrawImage real real real real
  | Restore

datatype module = Pose | Face | Hands

datatype log_type = Info | Warning | Error

datatype js_error = TypeError | SetupFailure | CameraFailure | CanvasMissing | FrameError

datatype completion = Normal | Throws js_error

text \<open>Everything the tracker does to its collaborators is recorded in a trace.\<close>

datatype event =
    Draw draw_op
  | Console log_type
  | Send module
  | RequestAnimationFrame
  | FpsText nat
  | HideLoading
  | ErrorModal

record status_element =
  textContent :: string
  color :: string

type_synonym dom = "string \<rightharpoonup> status_element"

text \<open>
  The fields of \<open>FullBodyTracker\<close>. The detector objects \<open>pose\<close>, \<open>faceMesh\<close>,
  \<open>hands\<close> and the elements \<open>videoElement\<close>, \<open>canvasElement\<close> are references that are
  either null or set: a boolean says which. \<open>handsLandmarks\<close> is a nullable array.
  \<open>document\<close> is the page (element ids to elements) and \<open>trace\<close> the calls made so far.
  \<open>canvasCtx\<close> is set together with \<open>canvasElement\<close>; \<open>debugOutput\<close> and
  \<open>loadingElement\<close> are only ever set to null and never read, so
  \<open>setupDebugControls\<close> has no effect and is left out.
\<close>

record tracker =
  fps :: nat
  frameCount :: nat
  lastFpsTime :: real
  targetFps :: real
  frameInterval :: real
  lastFrameTime :: real
  logInterval :: real
  lastLogTime :: real
  isTracking :: bool
  poseLandmarks :: "LandmarkPoint list option"
  poseWorldLandmarks :: "LandmarkPoint list option"
  faceLandmarks :: "LandmarkPoint list option"
  handsLandmarks :: "LandmarkPoint list list option"
  pose :: bool
  faceMesh :: bool
  hands :: bool
  videoElement :: bool
  canvasElement :: bool
  canvasWidth :: nat
  canvasHeight :: nat
  showPose :: bool
  showFace :: bool
  showHands :: bool
  showDebug :: bool
  retryCount :: nat
  maxRetries :: nat
  document :: dom
  trace :: "event list"

definition emit :: "event \<Rightarrow> tracker \<Rightarrow> tracker" where
  "emit e st = st\<lparr>trace := trace st @ [e]\<rparr>"

definition draws :: "draw_op list \<Rightarrow> tracker \<Rightarrow> tracker" where
  "draws ops st = st\<lparr>trace := trace st @ map Draw ops\<rparr>"

text \<open>The constructor; \<open>now\<close> is the reading of \<open>Date.now()\<close>, \<open>d\<close> the page.\<close>

definition constructor :: "real \<Rightarrow> dom \<Rightarrow> tracker" where
  "constructor now d =
     (let t = 30 in
      \<lparr>fps = 0, frameCount = 0, lastFpsTime = now, targetFps = t,
       frameInterval = 1000 / t, lastFrameTime = 0,
       logInterval = 2000, lastLogTime = 0,
       isTracking = False,
       poseLandmarks = None, poseWorldLandmarks = None, faceLandmarks = None,
       handsLandmarks = Some [],
       pose = False, faceMesh = False, hands = False,
       videoElement = False, canvasElement = False,
       canvasWidth = 300, canvasHeight = 150,
       showPose = True, showFace = True, showHands = True, showDebug = True,
       retryCount = 0, maxRetries = 3,
       document = d, trace = []\<rparr>)"

section \<open>Logging and the status display\<close>

text \<open>\<open>log(message, type)\<close>: silent unless \<open>showDebug\<close>; the text is not modelled.\<close>

definition log_tracker :: "log_type \<Rightarrow> tracker \<Rightarrow> tracker" where
  "log_tracker ty st = (if \<not> showDebug st then st else emit (Console ty) st)"

definition statusColor :: "string \<Rightarrow> string" where
  "statusColor status =
     (if status = ''active'' \<or> status = ''detected'' then ''#00FF00''
      else if status = ''error'' then ''#FF0000'' else ''#FFFF00'')"

text \<open>
  \<open>updateStatus(type, status)\<close>: the element is looked up by id and written only under
  the guard \<open>if (statusElement)\<close>.
\<close>

definition updateStatus :: "string \<Rightarrow> string \<Rightarrow> tracker \<Rightarrow> tracker" where
  "updateStatus ty status st =
     (case document st (ty @ ''-status'') of
        None \<Rightarrow> st
      | Some statusElement \<Rightarrow>
          st\<lparr>document := (document st)(ty @ ''-status'' \<mapsto>
                statusElement\<lparr>textContent := status, color := statusColor status\<rparr>)\<rparr>)"

section \<open>Render engine\<close>

definition flipX :: "real \<Rightarrow> real \<Rightarrow> real" where
  "flipX x width = width - x"

text \<open>\<open>a[i]\<close> on a JavaScript array: \<open>undefined\<close> out of range.\<close>

definition at_index :: "'a list \<Rightarrow> nat \<Rightarrow> 'a option" where
  "at_index xs i = (if i < length xs then Some (xs ! i) else None)"

definition poseConnections :: "(nat \<times> nat) list" where
  "poseConnections =
     [(11, 12), (11, 13), (13, 15), (12, 14), (14, 16),
      (11, 23), (12, 24), (23, 24),
      (23, 25), (25, 27), (27, 29), (29, 31),
      (24, 26), (26, 28), (28, 30), (30, 32),
      (15, 17), (15, 19), (15, 21),
      (16, 18), (16, 20), (16, 22)]"

text \<open>The body of \<open>connections.forEach\<close> in \<open>drawPoseLandmarks\<close>.\<close>

definition poseConnectionOps ::
  "LandmarkPoint list \<Rightarrow> real \<Rightarrow> real \<Rightarrow> nat \<times> nat \<Rightarrow> draw_op list" where
  "poseConnectionOps lms width height c =
     (case (at_index lms (fst c), at_index lms (snd c)) of
        (Some startPoint, Some endPoint) \<Rightarrow>
          if visibility startPoint > 0.3 \<and> visibility endPoint > 0.3
          then [BeginPath,
                MoveTo (flipX (px startPoint * width) width) (py startPoint * height),
                LineTo (flipX (px endPoint * width) width) (py endPoint * height),
                Stroke]
          else []
      | _ \<Rightarrow> [])"

text \<open>The body of \<open>poseLandmarks.forEach\<close>: a dot, and a label on five indices.\<close>

definition posePointOps ::
  "bool \<Rightarrow> real \<Rightarrow> real \<Rightarrow> nat \<times> LandmarkPoint \<Rightarrow> draw_op list" where
  "posePointOps debug width height il =
     (let index = fst il; landmark = snd il in
      if visibility landmark > 0.3
      then [BeginPath,
            Arc (flipX (px landmark * width) width) (py landmark * height) 6,
            Fill]
           @ (if debug \<and> index \<in> set [0, 11, 12, 23, 24]
              then [FillStyle ''white'', Font ''12px Arial'',
                    FillText index (flipX (px landmark * width) width + 10)
                                   (py landmark * height - 10),
                    FillStyle ''#00FF00'']
              else [])
      else [])"

definition drawPoseLandmarks :: "tracker \<Rightarrow> tracker" where
  "drawPoseLandmarks st =
     (case poseLandmarks st of
        None \<Rightarrow> st
      | Some lms \<Rightarrow>
          if \<not> showPose st then st
          else
            (let width = real (canvasWidth st); height = real (canvasHeight st) in
             draws ([StrokeStyle ''#00FF00'', LineWidth 3, FillStyle ''#00FF00'']
                    @ concat (map (poseConnectionOps lms width height) poseConnections)
                    @ concat (map (posePointOps (showDebug st) width height)
                                  (enumerate 0 lms))) st))"

definition faceContours :: "(nat \<times> nat) list" where
  "faceContours =
     [(10, 338), (338, 297), (297, 332), (332, 284), (284, 251), (251, 389),
      (389, 356), (356, 454), (454, 323), (323, 361), (361, 288), (288, 397),
      (397, 365), (365, 379), (379, 378), (378, 400), (400, 377), (377, 152),
      (152, 148), (148, 176), (176, 149), (149, 150), (150, 136), (136, 172),
      (172, 58), (58, 132), (132, 93), (93, 234), (234, 127), (127, 162),
      (162, 21), (21, 54), (54, 103), (103, 67), (67, 109), (109, 10)]"

text \<open>A connection of the face contour or of a hand: drawn when both ends exist.\<close>

definition segmentOps ::
  "LandmarkPoint list \<Rightarrow> real \<Rightarrow> real \<Rightarrow> nat \<times> nat \<Rightarrow> draw_op list" where
  "segmentOps lms width height c =
     (case (at_index lms (fst c), at_index lms (snd c)) of
        (Some startPoint, Some endPoint) \<Rightarrow>
          [BeginPath,
           MoveTo (flipX (px startPoint * width) width) (py startPoint * height),
           LineTo (flipX (px endPoint * width) width) (py endPoint * height),
           Stroke]
      | _ \<Rightarrow> [])"

definition facePointOps ::
  "LandmarkPoint list \<Rightarrow> real \<Rightarrow> real \<Rightarrow> nat \<Rightarrow> draw_op list" where
  "facePointOps lms width height index =
     (case at_index lms index of
        None \<Rightarrow> []
      | Some landmark \<Rightarrow>
          [BeginPath,
           Arc (flipX (px landmark * width) width) (py landmark * height) 2,
           Fill])"

text \<open>\<open>keyLandmarks\<close> is the literal list 0, 1, ..., 467.\<close>

definition drawFaceLandmarks :: "tracker \<Rightarrow> tracker" where
  "drawFaceLandmarks st =
     (case faceLandmarks st of
        None \<Rightarrow> st
      | Some lms \<Rightarrow>
          if \<not> showFace st then st
          else
            (let width = real (canvasWidth st); height = real (canvasHeight st) in
             draws ([StrokeStyle ''#FFD700'', LineWidth 1, FillStyle ''#FFD700'']
                    @ concat (map (segmentOps lms width height) faceContours)
                    @ concat (map (facePointOps lms width height) [0..<468])) st))"

definition handConnections :: "(nat \<times> nat) list" where
  "handConnections =
     [(0, 1), (1, 2), (2, 3), (3, 4),
      (0, 5), (5, 6), (6, 7), (7, 8),
      (0, 9), (9, 10), (10, 11), (11, 12),
      (0, 13), (13, 14), (14, 15), (15, 16),
      (0, 17), (17, 18), (18, 19), (19, 20),
      (5, 9), (9, 13), (13, 17)]"

definition handPointOps ::
  "bool \<Rightarrow> string \<Rightarrow> real \<Rightarrow> real \<Rightarrow> nat \<times> LandmarkPoint \<Rightarrow> draw_op list" where
  "handPointOps debug handColor width height il =
     (let index = fst il; landmark = snd il in
      [BeginPath,
       Arc (flipX (px landmark * width) width) (py landmark * height) 4,
       Fill]
      @ (if debug \<and> index \<in> set [0, 4, 8, 12, 16, 20]
         then [FillStyle ''white'', Font ''10px Arial'',
               FillText index (flipX (px landmark * width) width + 8)
                              (py landmark * height - 8),
               FillStyle handColor]
         else []))"

definition handOps ::
  "bool \<Rightarrow> real \<Rightarrow> real \<Rightarrow> nat \<times> LandmarkPoint list \<Rightarrow> draw_op list" where
  "handOps debug width height ih =
     (let handIndex = fst ih; handLandmarks = snd ih;
          handColor = (if handIndex = 0 then ''#FF6B6B'' else ''#4ECDC4'') in
      [StrokeStyle handColor, LineWidth 2, FillStyle handColor]
      @ concat (map (segmentOps handLandmarks width height) handConnections)
      @ concat (map (handPointOps debug handColor width height)
                    (enumerate 0 handLandmarks)))"

definition drawHandsLandmarks :: "tracker \<Rightarrow> tracker" where
  "drawHandsLandmarks st =
     (case handsLandmarks st of
        None \<Rightarrow> st
      | Some hs \<Rightarrow>
          if \<not> showHands st then st
          else
            (let width = real (canvasWidth st); height = real (canvasHeight st) in
             draws (concat (map (handOps (showDebug st) width height)
                                (enumerate 0 hs))) st))"

section \<open>Detector completions and the status projection\<close>

text \<open>The raw payloads of the three detectors; a missing property is \<open>None\<close>.\<close>

record pose_results =
  r_poseLandmarks :: "LandmarkPoint list option"
  r_poseWorldLandmarks :: "LandmarkPoint list option"

record face_results =
  multiFaceLandmarks :: "LandmarkPoint list list option"

record hands_results =
  multiHandLandmarks :: "LandmarkPoint list list option"

text \<open>
  \<open>updateTrackingStatus\<close>: an array is truthy even when empty, so pose and face are
  \<open>detected\<close> when the cache is set; \<open>this.handsLandmarks.length\<close> is read without a
  guard and throws on null, before anything is pushed.
\<close>

definition updateTrackingStatus :: "tracker \<Rightarrow> tracker \<times> completion" where
  "updateTrackingStatus st =
     (let poseStatus = (if poseLandmarks st \<noteq> None then ''detected'' else ''searching'');
          faceStatus = (if faceLandmarks st \<noteq> None then ''detected'' else ''searching'')
      in case handsLandmarks st of
           None \<Rightarrow> (st, Throws TypeError)
         | Some hs \<Rightarrow>
             (let handsStatus = (if length hs > 0 then ''detected'' else ''searching'') in
              (updateStatus ''hands'' handsStatus
                 (updateStatus ''face'' faceStatus
                    (updateStatus ''pose'' poseStatus st)), Normal)))"

definition logPoseData :: "tracker \<Rightarrow> tracker" where
  "logPoseData st =
     (if poseLandmarks st = None \<or> \<not> showDebug st then st else log_tracker Info st)"

definition logFaceData :: "tracker \<Rightarrow> tracker" where
  "logFaceData st =
     (if faceLandmarks st = None \<or> \<not> showDebug st then st else log_tracker Info st)"

definition logHandsData :: "tracker \<Rightarrow> tracker" where
  "logHandsData st =
     (if handsLandmarks st = None \<or> \<not> showDebug st then st else log_tracker Info st)"

text \<open>
  The completion callbacks; \<open>now\<close> is the reading of \<open>Date.now()\<close> for the throttled
  log. An exception leaves the callback with the state as it is at the throw.
\<close>

definition onPoseResults :: "pose_results \<Rightarrow> real \<Rightarrow> tracker \<Rightarrow> tracker \<times> completion" where
  "onPoseResults results now st =
     (let st1 = st\<lparr>poseLandmarks := r_poseLandmarks results,
                  poseWorldLandmarks := r_poseWorldLandmarks results\<rparr>;
          st2 = (if showPose st1 then drawPoseLandmarks st1 else st1)
      in case updateTrackingStatus st2 of
           (st3, Throws e) \<Rightarrow> (st3, Throws e)
         | (st3, Normal) \<Rightarrow>
             (if now - lastLogTime st3 \<ge> logInterval st3
              then ((logPoseData st3)\<lparr>lastLogTime := now\<rparr>, Normal)
              else (st3, Normal)))"

text \<open>\<open>results.multiFaceLandmarks?.[0] || null\<close>\<close>

definition firstFace :: "face_results \<Rightarrow> LandmarkPoint list option" where
  "firstFace results =
     (case multiFaceLandmarks results of
        None \<Rightarrow> None
      | Some faces \<Rightarrow> at_index faces 0)"

definition onFaceResults :: "face_results \<Rightarrow> real \<Rightarrow> tracker \<Rightarrow> tracker" where
  "onFaceResults results now st =
     (let st1 = st\<lparr>faceLandmarks := firstFace results\<rparr>;
          st2 = (if showFace st1 \<and> faceLandmarks st1 \<noteq> None
                 then drawFaceLandmarks st1 else st1)
      in if now - lastLogTime st2 \<ge> logInterval st2 \<and> faceLandmarks st2 \<noteq> None
         then (logFaceData st2)\<lparr>lastLogTime := now\<rparr>
         else st2)"

text \<open>
  \<open>results.multiHandLandmarks || []\<close>, then \<open>this.handsLandmarks.length\<close> is read twice.
\<close>

definition onHandsResults :: "hands_results \<Rightarrow> real \<Rightarrow> tracker \<Rightarrow> tracker \<times> completion" where
  "onHandsResults results now st =
     (let st1 = st\<lparr>handsLandmarks :=
                    Some (case multiHandLandmarks results of None \<Rightarrow> [] | Some hs \<Rightarrow> hs)\<rparr>
      in case handsLandmarks st1 of
           None \<Rightarrow> (st1, Throws TypeError)
         | Some hs \<Rightarrow>
             (let st2 = (if showHands st1 \<and> length hs > 0
                         then drawHandsLandmarks st1 else st1)
              in case handsLandmarks st2 of
                   None \<Rightarrow> (st2, Throws TypeError)
                 | Some hs2 \<Rightarrow>
                     (if now - lastLogTime st2 \<ge> logInterval st2 \<and> length hs2 > 0
                      then ((logHandsData st2)\<lparr>lastLogTime := now\<rparr>, Normal)
                      else (st2, Normal))))"

section \<open>Frame scheduler\<close>

text \<open>
  What one tick reads from outside the tracker: the clock in \<open>processFrame\<close>, the clock in
  \<open>updateFPS\<close>, the video element's state, and whether \<open>drawImage\<close> and the three
  \<open>send\<close> calls throw (a rejected promise under \<open>await\<close>).
\<close>

record tick_env =
  t_now :: real
  t_fpsNow :: real
  t_readyState :: nat
  t_videoWidth :: nat
  t_videoHeight :: nat
  t_drawImageThrows :: bool
  t_poseSendThrows :: bool
  t_faceSendThrows :: bool
  t_handsSendThrows :: bool

definition andThen ::
  "tracker \<times> completion \<Rightarrow> (tracker \<Rightarrow> tracker \<times> completion) \<Rightarrow> tracker \<times> completion" where
  "andThen r f = (case r of (st, Normal) \<Rightarrow> f st | (st, Throws e) \<Rightarrow> (st, Throws e))"

definition updateFPS :: "real \<Rightarrow> tracker \<Rightarrow> tracker" where
  "updateFPS now st =
     (let st1 = st\<lparr>frameCount := frameCount st + 1\<rparr> in
      if now - lastFpsTime st1 \<ge> 1000
      then (let st2 = st1\<lparr>fps := frameCount st1, frameCount := 0, lastFpsTime := now\<rparr> in
            if document st2 ''fps-display'' \<noteq> None then emit (FpsText (fps st2)) st2 else st2)
      else st1)"

definition resizeCanvas :: "tick_env \<Rightarrow> tracker \<Rightarrow> tracker" where
  "resizeCanvas env st =
     (if \<not> videoElement st \<or> \<not> canvasElement st then st
      else if t_videoWidth env \<noteq> 0 \<and> t_videoHeight env \<noteq> 0
           then st\<lparr>canvasWidth := t_videoWidth env, canvasHeight := t_videoHeight env\<rparr>
           else st)"

definition renderFrame :: "tick_env \<Rightarrow> tracker \<Rightarrow> tracker \<times> completion" where
  "renderFrame env st =
     (if \<not> videoElement st \<or> t_videoWidth env = 0 then (st, Normal)
      else
        (let st1 = resizeCanvas env st;
             w = real (canvasWidth st1); h = real (canvasHeight st1);
             st2 = draws [ClearRect 0 0 w h, Save, Scale (- 1) 1, Translate (- w) 0] st1
         in if t_drawImageThrows env then (st2, Throws FrameError)
            else (updateFPS (t_fpsNow env) (draws [DrawImage 0 0 w h, Restore] st2),
                  Normal)))"

text \<open>\<open>if (detector && show) await detector.send(...)\<close>\<close>

definition sendFrame :: "module \<Rightarrow> bool \<Rightarrow> bool \<Rightarrow> bool \<Rightarrow> tracker \<Rightarrow> tracker \<times> completion" where
  "sendFrame m detector enabled throws st =
     (if detector \<and> enabled
      then (emit (Send m) st, if throws then Throws FrameError else Normal)
      else (st, Normal))"

text \<open>The \<open>try\<close> block of \<open>processFrame\<close>.\<close>

definition tickBody :: "tick_env \<Rightarrow> tracker \<Rightarrow> tracker \<times> completion" where
  "tickBody env st =
     (if videoElement st \<and> t_readyState env \<ge> 2
      then andThen (renderFrame env st) (\<lambda>st1.
           andThen (sendFrame Pose (pose st1) (showPose st1) (t_poseSendThrows env) st1) (\<lambda>st2.
           andThen (sendFrame Face (faceMesh st2) (showFace st2) (t_faceSendThrows env) st2) (\<lambda>st3.
           sendFrame Hands (hands st3) (showHands st3) (t_handsSendThrows env) st3)))
      else (st, Normal))"

text \<open>
  One tick. A tick runs to its end before the next input is taken; a \<open>send\<close> whose
  promise never settles is outside the model.
\<close>

definition processFrame :: "tick_env \<Rightarrow> tracker \<Rightarrow> tracker" where
  "processFrame env st =
     (if \<not> isTracking st then st
      else if t_now env - lastFrameTime st < frameInterval st
      then emit RequestAnimationFrame st
      else
        (let st1 = st\<lparr>lastFrameTime := t_now env\<rparr> in
         case tickBody env st1 of
           (st2, Normal) \<Rightarrow> emit RequestAnimationFrame st2
         | (st2, Throws e) \<Rightarrow> emit RequestAnimationFrame (log_tracker Warning st2)))"

definition startOptimizedTracking :: "tick_env \<Rightarrow> tracker \<Rightarrow> tracker" where
  "startOptimizedTracking env st = processFrame env (log_tracker Info (st\<lparr>isTracking := True\<rparr>))"

section \<open>Initialisation\<close>

text \<open>
  How the set-up of one detector goes: it succeeds, the constructor throws, or a call on
  the constructed object (\<open>setOptions\<close>, \<open>onResults\<close>) throws.
\<close>

datatype setup_outcome = SetupOk | NewThrows | SetOptionsThrows

definition setupPose :: "setup_outcome \<Rightarrow> tracker \<Rightarrow> tracker \<times> completion" where
  "setupPose oc st =
     (let st1 = log_tracker Info st in
      case oc of
        SetupOk \<Rightarrow>
          (updateStatus ''pose'' ''active'' (log_tracker Info (st1\<lparr>pose := True\<rparr>)), Normal)
      | NewThrows \<Rightarrow>
          (updateStatus ''pose'' ''error'' (log_tracker Error st1), Throws SetupFailure)
      | SetOptionsThrows \<Rightarrow>
          (updateStatus ''pose'' ''error'' (log_tracker Error (st1\<lparr>pose := True\<rparr>)),
           Throws SetupFailure))"

definition setupFaceMesh :: "setup_outcome \<Rightarrow> tracker \<Rightarrow> tracker" where
  "setupFaceMesh oc st =
     (let st1 = log_tracker Info st in
      case oc of
        SetupOk \<Rightarrow>
          updateStatus ''face'' ''active'' (log_tracker Info (st1\<lparr>faceMesh := True\<rparr>))
      | _ \<Rightarrow>
          updateStatus ''face'' ''error''
            ((log_tracker Info st1)\<lparr>faceMesh := False, showFace := False\<rparr>))"

definition setupHands :: "setup_outcome \<Rightarrow> tracker \<Rightarrow> tracker" where
  "setupHands oc st =
     (let st1 = log_tracker Info st in
      case oc of
        SetupOk \<Rightarrow>
          updateStatus ''hands'' ''active'' (log_tracker Info (st1\<lparr>hands := True\<rparr>))
      | _ \<Rightarrow>
          updateStatus ''hands'' ''error''
            ((log_tracker Info st1)\<lparr>hands := False, showHands := False\<rparr>))"

record init_env =
  i_domComplete :: bool
  i_pose :: setup_outcome
  i_face :: setup_outcome
  i_hands :: setup_outcome
  i_cameraThrows :: bool
  i_firstTick :: tick_env

definition setupMediaPipeSequentially :: "init_env \<Rightarrow> tracker \<Rightarrow> tracker \<times> completion" where
  "setupMediaPipeSequentially env st =
     andThen (setupPose (i_pose env) (log_tracker Info st)) (\<lambda>st1.
       (log_tracker Info (setupHands (i_hands env) (setupFaceMesh (i_face env) st1)), Normal))"

definition startCamera :: "bool \<Rightarrow> tracker \<Rightarrow> tracker \<times> completion" where
  "startCamera throws st =
     (let st1 = log_tracker Info st in
      if throws
      then (updateStatus ''camera'' ''error'' (log_tracker Error st1), Throws CameraFailure)
      else (updateStatus ''camera'' ''active''
              (log_tracker Info (log_tracker Info st1)), Normal))"

definition hideLoading :: "tracker \<Rightarrow> tracker" where
  "hideLoading st = (if document st ''loading'' \<noteq> None then emit HideLoading st else st)"

definition showErrorModal :: "tracker \<Rightarrow> tracker" where
  "showErrorModal st = emit ErrorModal st"

text \<open>
  The wait for the page: a line is logged when \<open>document.readyState\<close> is not yet
  \<open>complete\<close>.
\<close>

definition waitForLoad :: "init_env \<Rightarrow> tracker \<Rightarrow> tracker" where
  "waitForLoad env st = (if \<not> i_domComplete env then log_tracker Info st else st)"

text \<open>The \<open>try\<close> block of \<open>init\<close>.\<close>

definition initBody :: "init_env \<Rightarrow> tracker \<Rightarrow> tracker \<times> completion" where
  "initBody env st0 =
     (let st = waitForLoad env st0 in
      if document st ''tracking-canvas'' = None then (st, Throws CanvasMissing)
      else
        andThen (setupMediaPipeSequentially env
                   (st\<lparr>canvasElement := True, videoElement := True\<rparr>)) (\<lambda>st1.
        andThen (startCamera (i_cameraThrows env) st1) (\<lambda>st2.
          (log_tracker Info (hideLoading (startOptimizedTracking (i_firstTick env) st2)),
           Normal))))"

definition init :: "init_env \<Rightarrow> tracker \<Rightarrow> tracker" where
  "init env st =
     (case initBody env (log_tracker Info st) of
        (st1, Normal) \<Rightarrow> st1
      | (st1, Throws e) \<Rightarrow>
          showErrorModal (updateStatus ''camera'' ''error'' (log_tracker Error st1)))"

section \<open>The running tracker\<close>

text \<open>After \<open>init\<close> the tracker is driven by animation ticks and detector completions.\<close>

datatype input =
    Tick tick_env
  | PoseDone pose_results real
  | FaceDone face_results real
  | HandsDone hands_results real

fun step :: "tracker \<Rightarrow> input \<Rightarrow> tracker" where
  "step st (Tick env) = processFrame env st"
| "step st (PoseDone r now) = fst (onPoseResults r now st)"
| "step st (FaceDone r now) = onFaceResults r now st"
| "step st (HandsDone r now) = fst (onHandsResults r now st)"

definition run :: "input list \<Rightarrow> tracker \<Rightarrow> tracker" where
  "run ins st = foldl step st ins"

text \<open>Observations on the trace: the frames dispatched and the draw calls made.\<close>

definition dispatched :: "tracker \<Rightarrow> module list" where
  "dispatched st = concat (map (\<lambda>e. case e of Send m \<Rightarrow> [m] | _ \<Rightarrow> []) (trace st))"

definition drawn :: "tracker \<Rightarrow> draw_op list" where
  "drawn st = concat (map (\<lambda>e. case e of Draw d \<Rightarrow> [d] | _ \<Rightarrow> []) (trace st))"


text \<open>
  The part of the tracker that only the set-up writes: the detector references, the show
  flags, the loop flag, the elements and the frame interval.
\<close>

definition config ::
  "tracker \<Rightarrow> (bool \<times> bool \<times> bool) \<times> (bool \<times> bool \<times> bool \<times> bool)
     \<times> (bool \<times> bool \<times> bool) \<times> real" where
  "config st =
     ((pose st, faceMesh st, hands st),
      (showPose st, showFace st, showHands st, showDebug st),
      (isTracking st, videoElement st, canvasElement st),
      frameInterval st)"

text \<open>The detectors a tick dispatches the frame to when no call throws, in order.\<close>

definition enabledModules :: "tracker \<Rightarrow> module list" where
  "enabledModules st =
     (if pose st \<and> showPose st then [Pose] else [])
     @ (if faceMesh st \<and> showFace st then [Face] else [])
     @ (if hands st \<and> showHands st then [Hands] else [])"

section \<open>Sample inputs\<close>

definition point0 :: LandmarkPoint where
  "point0 = \<lparr>px = 1 / 4, py = 1 / 2, pz = 0, visibility = 1 / 2\<rparr>"

definition pose33 :: "LandmarkPoint list" where
  "pose33 = replicate 33 point0"

definition element0 :: status_element where
  "element0 = \<lparr>textContent = ''loading'', color = ''#FFFF00''\<rparr>"

text \<open>A page with the canvas, the four status fields, the rate display and the loader.\<close>

definition page0 :: dom where
  "page0 = map_of
     [(''tracking-canvas'', element0), (''pose-status'', element0),
      (''face-status'', element0), (''hands-status'', element0),
      (''camera-status'', element0), (''fps-display'', element0),
      (''loading'', element0)]"

text \<open>A tick at time \<open>t\<close> with a playing 640x480 video and nothing throwing.\<close>

definition tickAt :: "real \<Rightarrow> tick_env" where
  "tickAt t =
     \<lparr>t_now = t, t_fpsNow = t, t_readyState = 4, t_videoWidth = 640, t_videoHeight = 480,
      t_drawImageThrows = False, t_poseSendThrows = False, t_faceSendThrows = False,
      t_handsSendThrows = False\<rparr>"

text \<open>
  An initialisation on a loaded page with the given set-up outcomes, a camera, and a
  first tick at 0.
\<close>

definition initWith :: "setup_outcome \<Rightarrow> setup_outcome \<Rightarrow> setup_outcome \<Rightarrow> init_env" where
  "initWith p f h =
     \<lparr>i_domComplete = True, i_pose = p, i_face = f, i_hands = h, i_cameraThrows = False,
      i_firstTick = tickAt 0\<rparr>"

text \<open>A tracker with every module switched off and a result cached for each.\<close>

definition allOff :: tracker where
  "allOff = (constructor 0 page0)
     \<lparr>poseLandmarks := Some pose33, faceLandmarks := Some pose33,
      handsLandmarks := Some [pose33, pose33],
      showPose := False, showFace := False, showHands := False\<rparr>"

text \<open>The tracker after a first pose completion that found nobody.\<close>

definition searching0 :: tracker where
  "searching0 =
     fst (onPoseResults \<lparr>r_poseLandmarks = None, r_poseWorldLandmarks = None\<rparr> 0
            (constructor 0 page0))"

text \<open>A running tracker with all three detectors set up, before its first tick.\<close>

definition ready0 :: tracker where
  "ready0 = (constructor 0 page0)
     \<lparr>isTracking := True, pose := True, faceMesh := True, hands := True,
      videoElement := True, canvasElement := True\<rparr>"


section \<open>Mirror transform\<close>


section \<open>Pose connections and the visibility threshold\<close>



lemma drawn_draws: "drawn (draws ops st) = drawn st @ ops"
  by (induction ops rule: rev_induct) (simp_all add: drawn_def draws_def)



section \<open>What the basic operations leave alone\<close>

lemma drawn_emit:
  "drawn (emit e st) = drawn st @ (case e of Draw d \<Rightarrow> [d] | _ \<Rightarrow> [])"
  by (simp add: drawn_def emit_def)

lemma drawn_log_tracker: "drawn (log_tracker ty st) = drawn st"
  by (simp add: log_tracker_def drawn_emit)

lemma trace_updateStatus: "trace (updateStatus ty status st) = trace st"
  by (simp add: updateStatus_def split: option.splits)

lemma drawn_updateStatus: "drawn (updateStatus ty status st) = drawn st"
  by (simp add: drawn_def trace_updateStatus)

lemma drawn_updateTrackingStatus: "drawn (fst (updateTrackingStatus st)) = drawn st"
  by (simp add: updateTrackingStatus_def drawn_updateStatus Let_def split: option.splits)

lemma drawn_lastLogTime: "drawn (st\<lparr>lastLogTime := t\<rparr>) = drawn st"
  by (simp add: drawn_def)

lemma drawn_logPoseData: "drawn (logPoseData st) = drawn st"
  by (simp add: logPoseData_def drawn_log_tracker)

lemma drawn_logFaceData: "drawn (logFaceData st) = drawn st"
  by (simp add: logFaceData_def drawn_log_tracker)

lemma drawn_logHandsData: "drawn (logHandsData st) = drawn st"
  by (simp add: logHandsData_def drawn_log_tracker)

lemma drawHands_fields:
  "handsLandmarks (drawHandsLandmarks st) = handsLandmarks st"
  "showHands (drawHandsLandmarks st) = showHands st"
  "lastLogTime (drawHandsLandmarks st) = lastLogTime st"
  "logInterval (drawHandsLandmarks st) = logInterval st"
  "document (drawHandsLandmarks st) = document st"
  by (simp_all add: drawHandsLandmarks_def draws_def Let_def split: option.splits)

section \<open>Disabled modules draw nothing\<close>

lemma drawPose_disabled: "\<not> showPose st \<Longrightarrow> drawPoseLandmarks st = st"
  by (simp add: drawPoseLandmarks_def split: option.splits)

lemma drawFace_disabled: "\<not> showFace st \<Longrightarrow> drawFaceLandmarks st = st"
  by (simp add: drawFaceLandmarks_def split: option.splits)

lemma drawHands_disabled: "\<not> showHands st \<Longrightarrow> drawHandsLandmarks st = st"
  by (simp add: drawHandsLandmarks_def split: option.splits)

lemma onPose_disabled:
  assumes "\<not> showPose st"
  shows "drawn (fst (onPoseResults r now st)) = drawn st"
proof -
  let ?st1 = "st\<lparr>poseLandmarks := r_poseLandmarks r,
                  poseWorldLandmarks := r_poseWorldLandmarks r\<rparr>"
  have d1: "drawn ?st1 = drawn st" by (simp add: drawn_def)
  have d3: "drawn (fst (updateTrackingStatus ?st1)) = drawn st"
    by (simp add: drawn_updateTrackingStatus d1)
  show ?thesis
    using assms d3
    by (cases "updateTrackingStatus ?st1")
       (auto simp: onPoseResults_def Let_def drawn_lastLogTime drawn_logPoseData
             split: completion.splits)
qed

lemma onFace_disabled:
  assumes "\<not> showFace st"
  shows "drawn (onFaceResults r now st) = drawn st"
proof -
  have d1: "drawn (st\<lparr>faceLandmarks := f\<rparr>) = drawn st" for f by (simp add: drawn_def)
  show ?thesis
    using assms by (simp add: onFaceResults_def Let_def drawn_lastLogTime drawn_logFaceData d1)
qed

lemma onHands_disabled:
  assumes "\<not> showHands st"
  shows "drawn (fst (onHandsResults r now st)) = drawn st"
proof -
  have d1: "drawn (st\<lparr>handsLandmarks := f\<rparr>) = drawn st" for f by (simp add: drawn_def)
  show ?thesis
    using assms by (simp add: onHandsResults_def Let_def drawn_lastLogTime drawn_logHandsData d1)
qed

text \<open>
  Claim C3. For each of pose, face and hands: when the module's flag is false, its draw
  function leaves the tracker as it is, whatever result is cached, and its completion
  callback adds no draw call to the display surface, whatever result it carries.
\<close>

theorem disabled_module_draws_nothing:
  "(\<not> showPose st \<longrightarrow>
      drawPoseLandmarks st = st \<and> drawn (fst (onPoseResults pr now st)) = drawn st) \<and>
   (\<not> showFace st \<longrightarrow>
      drawFaceLandmarks st = st \<and> drawn (onFaceResults fr now st) = drawn st) \<and>
   (\<not> showHands st \<longrightarrow>
      drawHandsLandmarks st = st \<and> drawn (fst (onHandsResults hr now st)) = drawn st)"
  by (simp add: drawPose_disabled drawFace_disabled drawHands_disabled
        onPose_disabled onFace_disabled onHands_disabled)

theorem disabled_module_draws_nothing_witness:
  "\<not> showPose (allOff) \<and> \<not> showFace allOff \<and> \<not> showHands allOff \<and>
   poseLandmarks allOff = Some pose33 \<and>
   drawPoseLandmarks allOff = allOff \<and>
   drawFaceLandmarks allOff = allOff \<and>
   drawHandsLandmarks allOff = allOff \<and>
   drawn (fst (onPoseResults \<lparr>r_poseLandmarks = Some pose33, r_poseWorldLandmarks = None\<rparr>
                 5000 allOff)) = drawn allOff \<and>
   drawn (onFaceResults \<lparr>multiFaceLandmarks = Some [pose33]\<rparr> 5000 allOff) = drawn allOff \<and>
   drawn (fst (onHandsResults \<lparr>multiHandLandmarks = Some [pose33]\<rparr> 5000 allOff))
     = drawn allOff"
proof -
  have h: "\<not> showPose allOff \<and> \<not> showFace allOff \<and> \<not> showHands allOff \<and>
           poseLandmarks allOff = Some pose33"
    by (simp add: allOff_def)
  from h disabled_module_draws_nothing [of allOff
      "\<lparr>r_poseLandmarks = Some pose33, r_poseWorldLandmarks = None\<rparr>" 5000
      "\<lparr>multiFaceLandmarks = Some [pose33]\<rparr>" "\<lparr>multiHandLandmarks = Some [pose33]\<rparr>"]
  show ?thesis by blast
qed

section \<open>The status display may be absent\<close>

text \<open>
  Claim C9. For every module name and every status, \<open>updateStatus\<close> changes nothing when
  the page has no status element of that name: the element is only written under the
  guard, so no path of the function throws.
\<close>

theorem updateStatus_absent_noop:
  "document st (ty @ ''-status'') = None \<Longrightarrow> updateStatus ty status st = st"
  by (simp add: updateStatus_def)

theorem updateStatus_absent_noop_witness:
  "document (constructor 0 Map.empty) (''pose'' @ ''-status'') = None \<and>
   updateStatus ''pose'' ''error'' (constructor 0 Map.empty) = constructor 0 Map.empty"
proof -
  have h: "document (constructor 0 Map.empty) (''pose'' @ ''-status'') = None"
    by (simp add: constructor_def)
  from updateStatus_absent_noop [OF h, of "''error''"] h show ?thesis by simp
qed

section \<open>The result caches after a completion\<close>




lemma faceCache_after:
  "faceLandmarks (onFaceResults r now st) =
     (case multiFaceLandmarks r of None \<Rightarrow> None | Some [] \<Rightarrow> None | Some (f # fs) \<Rightarrow> Some f)"
  by (simp add: onFaceResults_def Let_def logFaceData_def log_tracker_def emit_def
        firstFace_def at_index_def drawFaceLandmarks_def draws_def
      split: option.splits list.splits)



section \<open>The running tracker keeps its configuration\<close>

lemma config_emit: "config (emit e st) = config st"
  by (simp add: config_def emit_def)

lemma config_draws: "config (draws ops st) = config st"
  by (simp add: config_def draws_def)

lemma config_log_tracker: "config (log_tracker ty st) = config st"
  by (simp add: log_tracker_def config_emit)

lemma config_updateStatus: "config (updateStatus ty s st) = config st"
  by (simp add: updateStatus_def config_def split: option.splits)





lemma config_caches:
  "config (st\<lparr>poseLandmarks := a, poseWorldLandmarks := b\<rparr>) = config st"
  "config (st\<lparr>faceLandmarks := c\<rparr>) = config st"
  "config (st\<lparr>handsLandmarks := d\<rparr>) = config st"
  "config (st\<lparr>lastLogTime := t\<rparr>) = config st"
  "config (st\<lparr>lastFrameTime := t\<rparr>) = config st"
  by (simp_all add: config_def)





lemma config_updateFPS: "config (updateFPS now st) = config st"
  by (simp add: updateFPS_def Let_def config_def emit_def)

lemma config_resizeCanvas: "config (resizeCanvas env st) = config st"
  by (simp add: resizeCanvas_def config_def)

lemma config_renderFrame: "config (fst (renderFrame env st)) = config st"
  by (simp add: renderFrame_def Let_def config_updateFPS config_draws config_resizeCanvas)

lemma config_sendFrame: "config (fst (sendFrame m d e t st)) = config st"
  by (simp add: sendFrame_def config_emit)

lemma config_andThen:
  assumes "config (fst r) = c" and "\<And>s. config s = c \<Longrightarrow> config (fst (f s)) = c"
  shows "config (fst (andThen r f)) = c"
  using assms by (cases r) (auto simp: andThen_def split: completion.splits)

lemma config_tickBody: "config (fst (tickBody env st)) = config st"
  unfolding tickBody_def
  by (auto intro!: config_andThen simp: config_renderFrame config_sendFrame)

lemma config_processFrame: "config (processFrame env st) = config st"
proof -
  have "config (fst (tickBody env (st\<lparr>lastFrameTime := t_now env\<rparr>))) = config st"
    by (simp add: config_tickBody config_caches)
  then show ?thesis
    by (cases "tickBody env (st\<lparr>lastFrameTime := t_now env\<rparr>)")
       (auto simp: processFrame_def Let_def config_emit config_log_tracker
             split: completion.splits)
qed



section \<open>Frames are dispatched only to modules that are set up and shown\<close>

lemma enabledModules_config: "config a = config b \<Longrightarrow> enabledModules a = enabledModules b"
  by (simp add: config_def enabledModules_def)

lemma dispatched_emit:
  "dispatched (emit e st) = dispatched st @ (case e of Send m \<Rightarrow> [m] | _ \<Rightarrow> [])"
  by (simp add: dispatched_def emit_def)

lemma dispatched_draws: "dispatched (draws ops st) = dispatched st"
  by (induction ops rule: rev_induct) (simp_all add: dispatched_def draws_def)

lemma dispatched_log_tracker: "dispatched (log_tracker ty st) = dispatched st"
  by (simp add: log_tracker_def dispatched_emit)

lemma dispatched_updateStatus: "dispatched (updateStatus ty s st) = dispatched st"
  by (simp add: dispatched_def trace_updateStatus)



lemma dispatched_fields:
  "dispatched (st\<lparr>poseLandmarks := a, poseWorldLandmarks := b\<rparr>) = dispatched st"
  "dispatched (st\<lparr>faceLandmarks := c\<rparr>) = dispatched st"
  "dispatched (st\<lparr>handsLandmarks := d\<rparr>) = dispatched st"
  "dispatched (st\<lparr>lastLogTime := t\<rparr>) = dispatched st"
  "dispatched (st\<lparr>lastFrameTime := t\<rparr>) = dispatched st"
  by (simp_all add: dispatched_def)





lemma dispatched_updateFPS: "dispatched (updateFPS now st) = dispatched st"
  by (simp add: updateFPS_def Let_def dispatched_def emit_def)

lemma dispatched_resizeCanvas: "dispatched (resizeCanvas env st) = dispatched st"
  by (simp add: resizeCanvas_def dispatched_def)

lemma dispatched_renderFrame: "dispatched (fst (renderFrame env st)) = dispatched st"
  by (simp add: renderFrame_def Let_def dispatched_updateFPS dispatched_draws
        dispatched_resizeCanvas)

lemma andThen_normal: "snd r = Normal \<Longrightarrow> andThen r f = f (fst r)"
  by (cases r) (simp add: andThen_def)


lemma andThen_inv:
  assumes "P (fst r)" and "\<And>s. P s \<Longrightarrow> P (fst (f s))"
  shows "P (fst (andThen r f))"
  using assms by (cases r) (auto simp: andThen_def split: completion.splits)





section \<open>The status fields of the page\<close>

lemma document_emit: "document (emit e st) = document st"
  by (simp add: emit_def)

lemma document_draws: "document (draws ops st) = document st"
  by (simp add: draws_def)

lemma document_log_tracker: "document (log_tracker ty st) = document st"
  by (simp add: log_tracker_def document_emit)

lemma document_updateStatus:
  "document (updateStatus ty s st) k =
     (if k = ty @ ''-status''
      then map_option (\<lambda>el. el\<lparr>textContent := s, color := statusColor s\<rparr>) (document st k)
      else document st k)"
  by (simp add: updateStatus_def split: option.splits)

lemma document_draw:
  "document (drawPoseLandmarks st) = document st"
  "document (drawFaceLandmarks st) = document st"
  by (simp_all add: drawPoseLandmarks_def drawFaceLandmarks_def Let_def document_draws
        split: option.splits)

lemma document_logData:
  "document (logPoseData st) = document st"
  "document (logFaceData st) = document st"
  "document (logHandsData st) = document st"
  by (simp_all add: logPoseData_def logFaceData_def logHandsData_def document_log_tracker)

lemma document_onFaceResults: "document (onFaceResults r now st) = document st"
  by (simp add: onFaceResults_def Let_def document_logData document_draw)

lemma document_onHandsResults: "document (fst (onHandsResults r now st)) = document st"
  by (simp add: onHandsResults_def Let_def document_logData drawHands_fields)

lemma document_updateFPS: "document (updateFPS now st) = document st"
  by (simp add: updateFPS_def Let_def emit_def)

lemma document_renderFrame: "document (fst (renderFrame env st)) = document st"
  by (simp add: renderFrame_def Let_def document_updateFPS document_draws resizeCanvas_def)

lemma document_sendFrame: "document (fst (sendFrame m d e t st)) = document st"
  by (simp add: sendFrame_def document_emit)

lemma document_tickBody: "document (fst (tickBody env st)) = document st"
proof -
  define P where "P s \<longleftrightarrow> document s = document st" for s :: tracker
  have P0: "P st" by (simp add: P_def)
  have render: "P (fst (renderFrame env s))" if "P s" for s
    using that by (simp add: P_def document_renderFrame)
  have send: "P (fst (sendFrame m d e t s))" if "P s" for m d e t s
    using that by (simp add: P_def document_sendFrame)
  have "P (fst (tickBody env st))"
  proof (cases "videoElement st \<and> t_readyState env \<ge> 2")
    case True
    have "P (fst (andThen (renderFrame env st) (\<lambda>st1.
           andThen (sendFrame Pose (pose st1) (showPose st1) (t_poseSendThrows env) st1) (\<lambda>st2.
           andThen (sendFrame Face (faceMesh st2) (showFace st2) (t_faceSendThrows env) st2) (\<lambda>st3.
           sendFrame Hands (hands st3) (showHands st3) (t_handsSendThrows env) st3)))))"
      by (rule andThen_inv [where P = P], rule render, rule P0,
          rule andThen_inv [where P = P], erule send,
          rule andThen_inv [where P = P], erule send, erule send)
    with True show ?thesis by (simp add: tickBody_def)
  next
    case False
    with P0 show ?thesis by (auto simp: tickBody_def)
  qed
  then show ?thesis by (simp add: P_def)
qed

lemma document_processFrame: "document (processFrame env st) = document st"
proof -
  have "document (fst (tickBody env (st\<lparr>lastFrameTime := t_now env\<rparr>))) = document st"
    by (simp add: document_tickBody)
  then show ?thesis
    by (cases "tickBody env (st\<lparr>lastFrameTime := t_now env\<rparr>)")
       (auto simp: processFrame_def Let_def document_emit document_log_tracker
             split: completion.splits)
qed

text \<open>What a pose completion pushes to the three status fields.\<close>

lemma document_updateTrackingStatus:
  assumes "handsLandmarks st = Some hs"
  shows "document (fst (updateTrackingStatus st)) =
     document
       (updateStatus ''hands'' (if length hs > 0 then ''detected'' else ''searching'')
         (updateStatus ''face'' (if faceLandmarks st \<noteq> None then ''detected'' else ''searching'')
           (updateStatus ''pose'' (if poseLandmarks st \<noteq> None then ''detected'' else ''searching'')
              st)))"
  using assms by (simp add: updateTrackingStatus_def Let_def)

lemma drawPose_fields:
  "handsLandmarks (drawPoseLandmarks st) = handsLandmarks st"
  "faceLandmarks (drawPoseLandmarks st) = faceLandmarks st"
  "poseLandmarks (drawPoseLandmarks st) = poseLandmarks st"
  by (simp_all add: drawPoseLandmarks_def draws_def Let_def split: option.splits)

lemma updateTrackingStatus_fst:
  "handsLandmarks st = Some hs \<Longrightarrow>
   updateTrackingStatus st =
     (updateStatus ''hands'' (if length hs > 0 then ''detected'' else ''searching'')
         (updateStatus ''face'' (if faceLandmarks st \<noteq> None then ''detected'' else ''searching'')
           (updateStatus ''pose'' (if poseLandmarks st \<noteq> None then ''detected'' else ''searching'')
              st)), Normal)"
  by (simp add: updateTrackingStatus_def Let_def)

lemma document_onPoseResults:
  assumes "handsLandmarks st = Some hs"
  shows "document (fst (onPoseResults r now st)) k =
     (if k = ''hands-status''
      then map_option (\<lambda>el. el\<lparr>textContent := (if length hs > 0 then ''detected'' else ''searching''),
                              color := statusColor (if length hs > 0 then ''detected'' else ''searching'')\<rparr>)
             (document st k)
      else if k = ''face-status''
      then map_option (\<lambda>el. el\<lparr>textContent := (if faceLandmarks st \<noteq> None then ''detected'' else ''searching''),
                              color := statusColor (if faceLandmarks st \<noteq> None then ''detected'' else ''searching'')\<rparr>)
             (document st k)
      else if k = ''pose-status''
      then map_option (\<lambda>el. el\<lparr>textContent := (if r_poseLandmarks r \<noteq> None then ''detected'' else ''searching''),
                              color := statusColor (if r_poseLandmarks r \<noteq> None then ''detected'' else ''searching'')\<rparr>)
             (document st k)
      else document st k)"
proof -
  define st2 where "st2 =
     (if showPose (st\<lparr>poseLandmarks := r_poseLandmarks r,
                       poseWorldLandmarks := r_poseWorldLandmarks r\<rparr>)
      then drawPoseLandmarks (st\<lparr>poseLandmarks := r_poseLandmarks r,
                       poseWorldLandmarks := r_poseWorldLandmarks r\<rparr>)
      else st\<lparr>poseLandmarks := r_poseLandmarks r,
                       poseWorldLandmarks := r_poseWorldLandmarks r\<rparr>)"
  have h: "handsLandmarks st2 = Some hs" "faceLandmarks st2 = faceLandmarks st"
       "poseLandmarks st2 = r_poseLandmarks r" "document st2 = document st"
    using assms by (simp_all add: st2_def drawPose_fields document_draw)
  have "onPoseResults r now st =
          (case updateTrackingStatus st2 of
             (st3, Throws e) \<Rightarrow> (st3, Throws e)
           | (st3, Normal) \<Rightarrow>
               (if now - lastLogTime st3 \<ge> logInterval st3
                then ((logPoseData st3)\<lparr>lastLogTime := now\<rparr>, Normal)
                else (st3, Normal)))"
    by (simp add: onPoseResults_def Let_def st2_def)
  then have "document (fst (onPoseResults r now st)) = document (fst (updateTrackingStatus st2))"
    by (simp add: updateTrackingStatus_fst [OF h(1)] document_logData)
  then show ?thesis
    by (simp add: document_updateTrackingStatus [OF h(1)] document_updateStatus h)
qed

section \<open>Initialisation, step by step\<close>

lemma config_constructor:
  "config (constructor c d) =
     ((False, False, False), (True, True, True, True), (False, False, False), 1000 / 30)"
  by (simp add: config_def constructor_def)

lemma config_setupPose_ok:
  "setupPose SetupOk st =
     (updateStatus ''pose'' ''active''
        (log_tracker Info ((log_tracker Info st)\<lparr>pose := True\<rparr>)), Normal)"
  by (simp add: setupPose_def Let_def)

lemma config_set_pose:
  "config (st\<lparr>pose := b\<rparr>) =
     (case config st of ((p, f, h), rest) \<Rightarrow> ((b, f, h), rest))"
  by (simp add: config_def)

lemma config_setupPose:
  "config (fst (setupPose oc st)) =
     (case config st of ((p, f, h), rest) \<Rightarrow> ((p \<or> oc \<noteq> NewThrows, f, h), rest))"
  by (cases oc)
     (simp_all add: setupPose_def Let_def config_updateStatus config_log_tracker
        config_set_pose split: prod.splits)

lemma snd_setupPose: "snd (setupPose oc st) = (if oc = SetupOk then Normal else Throws SetupFailure)"
  by (cases oc) (simp_all add: setupPose_def Let_def)

lemma config_set_faceMesh:
  "config (st\<lparr>faceMesh := b\<rparr>) =
     (case config st of ((p, f, h), rest) \<Rightarrow> ((p, b, h), rest))"
  "config (st\<lparr>faceMesh := b, showFace := b'\<rparr>) =
     (case config st of ((p, f, h), (sp, sf, sh, sd), rest) \<Rightarrow>
        ((p, b, h), (sp, b', sh, sd), rest))"
  by (simp_all add: config_def)

lemma config_setupFaceMesh:
  "config (setupFaceMesh oc st) =
     (case config st of ((p, f, h), (sp, sf, sh, sd), rest) \<Rightarrow>
        ((p, oc = SetupOk, h), (sp, sf \<and> oc = SetupOk, sh, sd), rest))"
  by (cases oc)
     (simp_all add: setupFaceMesh_def Let_def config_updateStatus config_log_tracker
        config_set_faceMesh split: prod.splits)

lemma config_set_hands:
  "config (st\<lparr>hands := b\<rparr>) =
     (case config st of ((p, f, h), rest) \<Rightarrow> ((p, f, b), rest))"
  "config (st\<lparr>hands := b, showHands := b'\<rparr>) =
     (case config st of ((p, f, h), (sp, sf, sh, sd), rest) \<Rightarrow>
        ((p, f, b), (sp, sf, b', sd), rest))"
  by (simp_all add: config_def)

lemma config_setupHands:
  "config (setupHands oc st) =
     (case config st of ((p, f, h), (sp, sf, sh, sd), rest) \<Rightarrow>
        ((p, f, oc = SetupOk), (sp, sf, sh \<and> oc = SetupOk, sd), rest))"
  by (cases oc)
     (simp_all add: setupHands_def Let_def config_updateStatus config_log_tracker
        config_set_hands split: prod.splits)

lemma config_startCamera: "config (fst (startCamera t st)) = config st"
  by (simp add: startCamera_def Let_def config_updateStatus config_log_tracker)

lemma snd_startCamera: "snd (startCamera t st) = (if t then Throws CameraFailure else Normal)"
  by (simp add: startCamera_def Let_def)

lemma config_hideLoading: "config (hideLoading st) = config st"
  by (simp add: hideLoading_def config_emit)

lemma config_set_isTracking:
  "config (st\<lparr>isTracking := b\<rparr>) =
     (case config st of (dt, fl, (t, v, cv), fi) \<Rightarrow> (dt, fl, (b, v, cv), fi))"
  by (simp add: config_def)

lemma config_startOptimizedTracking:
  "config (startOptimizedTracking env st) =
     (case config st of (dt, fl, (t, v, cv), fi) \<Rightarrow> (dt, fl, (True, v, cv), fi))"
  by (simp add: startOptimizedTracking_def config_processFrame config_log_tracker
        config_set_isTracking)

lemma config_set_elements:
  "config (st\<lparr>canvasElement := a, videoElement := b\<rparr>) =
     (case config st of (dt, fl, (t, v, cv), fi) \<Rightarrow> (dt, fl, (t, b, a), fi))"
  by (simp add: config_def)

lemma waitForLoad_fields [simp]:
  "config (waitForLoad env st) = config st"
  "dispatched (waitForLoad env st) = dispatched st"
  "drawn (waitForLoad env st) = drawn st"
  "document (waitForLoad env st) = document st"
  by (simp_all add: waitForLoad_def config_log_tracker dispatched_log_tracker
        drawn_log_tracker document_log_tracker)

lemma waitForLoad_state [simp]:
  "handsLandmarks (waitForLoad env st) = handsLandmarks st"
  "lastFrameTime (waitForLoad env st) = lastFrameTime st"
  by (simp_all add: waitForLoad_def log_tracker_def emit_def)

text \<open>The three ways \<open>init\<close> can go.\<close>

lemma init_no_canvas:
  assumes "document st ''tracking-canvas'' = None"
  shows "init env st =
     showErrorModal (updateStatus ''camera'' ''error''
        (log_tracker Error (waitForLoad env (log_tracker Info st))))"
  using assms by (simp add: init_def initBody_def document_log_tracker Let_def)


lemma init_runs:
  assumes "document st ''tracking-canvas'' \<noteq> None" and "i_pose env = SetupOk"
      and "\<not> i_cameraThrows env"
  shows "init env st =
     log_tracker Info (hideLoading (startOptimizedTracking (i_firstTick env)
       (fst (startCamera False
         (log_tracker Info
           (setupHands (i_hands env)
             (setupFaceMesh (i_face env)
               (fst (setupPose SetupOk
                 (log_tracker Info
                   ((waitForLoad env (log_tracker Info st))\<lparr>canvasElement := True,
                                             videoElement := True\<rparr>)))))))))))"
proof -
  let ?s = "log_tracker Info ((waitForLoad env (log_tracker Info st))
              \<lparr>canvasElement := True, videoElement := True\<rparr>)"
  let ?m = "log_tracker Info (setupHands (i_hands env) (setupFaceMesh (i_face env)
              (fst (setupPose SetupOk ?s))))"
  have m: "setupMediaPipeSequentially env
               ((waitForLoad env (log_tracker Info st))
                  \<lparr>canvasElement := True, videoElement := True\<rparr>)
             = (?m, Normal)"
    using assms(2)
    by (simp add: setupMediaPipeSequentially_def andThen_normal snd_setupPose)
  have c: "startCamera False ?m = (fst (startCamera False ?m), Normal)"
    by (simp add: prod_eq_iff snd_startCamera)
  from assms(1) obtain el where el: "document st ''tracking-canvas'' = Some el"
    by auto
  have "initBody env (log_tracker Info st) =
          (log_tracker Info (hideLoading (startOptimizedTracking (i_firstTick env)
             (fst (startCamera False ?m)))), Normal)"
    using assms(3)
    apply (simp add: initBody_def document_log_tracker el m Let_def)
    apply (subst andThen_def)
    apply (simp only: prod.case completion.case)
    apply (subst c)
    apply (simp add: andThen_def)
    done
  then show ?thesis by (simp add: init_def)
qed

lemma config_init_runs:
  assumes "d ''tracking-canvas'' \<noteq> None" and "i_pose env = SetupOk"
      and "\<not> i_cameraThrows env"
  shows "config (init env (constructor c d)) =
     ((True, i_face env = SetupOk, i_hands env = SetupOk),
      (True, i_face env = SetupOk, i_hands env = SetupOk, True),
      (True, True, True), 1000 / 30)"
proof -
  have "document (constructor c d) ''tracking-canvas'' \<noteq> None"
    using assms(1) by (simp add: constructor_def)
  from init_runs [OF this assms(2,3)] show ?thesis
    by (simp add: config_log_tracker config_hideLoading config_startOptimizedTracking
          config_startCamera config_setupHands config_setupFaceMesh config_setupPose
          config_set_elements config_constructor)
qed


text \<open>The set-up dispatches nothing.\<close>

lemma dispatched_setup:
  "dispatched (fst (setupPose oc st)) = dispatched st"
  "dispatched (setupFaceMesh oc st) = dispatched st"
  "dispatched (setupHands oc st) = dispatched st"
  "dispatched (fst (startCamera t st)) = dispatched st"
  "dispatched (hideLoading st) = dispatched st"
  "dispatched (showErrorModal st) = dispatched st"
  "dispatched (st\<lparr>canvasElement := a, videoElement := b\<rparr>) = dispatched st"
  "dispatched (st\<lparr>isTracking := a\<rparr>) = dispatched st"
  "dispatched (st\<lparr>pose := a\<rparr>) = dispatched st"
  "dispatched (st\<lparr>faceMesh := a\<rparr>) = dispatched st"
  "dispatched (st\<lparr>hands := a\<rparr>) = dispatched st"
  "dispatched (st\<lparr>faceMesh := a, showFace := b\<rparr>) = dispatched st"
  "dispatched (st\<lparr>hands := a, showHands := b\<rparr>) = dispatched st"
proof -
  have f: "dispatched (st\<lparr>canvasElement := a, videoElement := b\<rparr>) = dispatched st"
    "dispatched (st\<lparr>isTracking := a\<rparr>) = dispatched st"
    "dispatched (st\<lparr>pose := a\<rparr>) = dispatched st"
    "dispatched (st\<lparr>faceMesh := a\<rparr>) = dispatched st"
    "dispatched (st\<lparr>hands := a\<rparr>) = dispatched st"
    "dispatched (st\<lparr>faceMesh := a, showFace := b\<rparr>) = dispatched st"
    "dispatched (st\<lparr>hands := a, showHands := b\<rparr>) = dispatched st"
    for st :: tracker and a b
    by (simp_all add: dispatched_def)
  show "dispatched (fst (setupPose oc st)) = dispatched st"
    by (cases oc)
       (simp_all add: setupPose_def Let_def dispatched_updateStatus dispatched_log_tracker f)
  show "dispatched (setupFaceMesh oc st) = dispatched st"
    by (cases oc)
       (simp_all add: setupFaceMesh_def Let_def dispatched_updateStatus
          dispatched_log_tracker f)
  show "dispatched (setupHands oc st) = dispatched st"
    by (cases oc)
       (simp_all add: setupHands_def Let_def dispatched_updateStatus dispatched_log_tracker f)
  show "dispatched (fst (startCamera t st)) = dispatched st"
    by (simp add: startCamera_def Let_def dispatched_updateStatus dispatched_log_tracker)
  show "dispatched (hideLoading st) = dispatched st"
    by (simp add: hideLoading_def dispatched_emit)
  show "dispatched (showErrorModal st) = dispatched st"
    by (simp add: showErrorModal_def dispatched_emit)
qed (simp_all add: dispatched_def)

lemma dispatched_constructor: "dispatched (constructor c d) = []"
  by (simp add: dispatched_def constructor_def)





text \<open>An accepted tick on a playing video, with no call throwing.\<close>

lemma snd_renderFrame:
  "\<not> t_drawImageThrows env \<Longrightarrow> snd (renderFrame env st) = Normal"
  by (simp add: renderFrame_def Let_def)

lemma sendFrame_ok:
  "\<not> t \<Longrightarrow> sendFrame m d e t st = (if d \<and> e then emit (Send m) st else st, Normal)"
  by (simp add: sendFrame_def)

lemma tickBody_ok:
  assumes "videoElement st" and "t_readyState env \<ge> 2" and "\<not> t_drawImageThrows env"
      and "\<not> t_poseSendThrows env" and "\<not> t_faceSendThrows env"
      and "\<not> t_handsSendThrows env"
  shows "snd (tickBody env st) = Normal \<and>
         dispatched (fst (tickBody env st)) = dispatched st @ enabledModules st"
proof -
  let ?r = "fst (renderFrame env st)"
  have c: "config ?r = config st" by (rule config_renderFrame)
  then have f: "pose ?r = pose st" "showPose ?r = showPose st" "faceMesh ?r = faceMesh st"
    "showFace ?r = showFace st" "hands ?r = hands st" "showHands ?r = showHands st"
    by (simp_all add: config_def)
  have "tickBody env st =
          (let s1 = (if pose st \<and> showPose st then emit (Send Pose) ?r else ?r);
               s2 = (if faceMesh st \<and> showFace st then emit (Send Face) s1 else s1);
               s3 = (if hands st \<and> showHands st then emit (Send Hands) s2 else s2)
           in (s3, Normal))"
    using assms
    by (simp add: tickBody_def andThen_normal snd_renderFrame sendFrame_ok f emit_def Let_def)
  then show ?thesis
    by (simp add: Let_def dispatched_emit dispatched_renderFrame enabledModules_def)
qed

lemma processFrame_accepted_dispatch:
  assumes "isTracking st" and "\<not> (t_now env - lastFrameTime st < frameInterval st)"
      and "videoElement st" and "t_readyState env \<ge> 2" and "\<not> t_drawImageThrows env"
      and "\<not> t_poseSendThrows env" and "\<not> t_faceSendThrows env"
      and "\<not> t_handsSendThrows env"
  shows "dispatched (processFrame env st) = dispatched st @ enabledModules st"
proof -
  let ?st1 = "st\<lparr>lastFrameTime := t_now env\<rparr>"
  have v: "videoElement ?st1" using assms(3) by simp
  have e: "enabledModules ?st1 = enabledModules st"
    by (rule enabledModules_config) (simp add: config_caches)
  from tickBody_ok [OF v assms(4-8)]
  have "snd (tickBody env ?st1) = Normal"
    and "dispatched (fst (tickBody env ?st1)) = dispatched st @ enabledModules st"
    by (simp_all add: e dispatched_fields)
  then show ?thesis
    using assms(1,2)
    by (cases "tickBody env ?st1") (simp add: processFrame_def Let_def dispatched_emit)
qed

lemma document_setup:
  "document (fst (setupPose oc st)) k =
     (if k = ''pose-status''
      then map_option (\<lambda>el. el\<lparr>textContent := (if oc = SetupOk then ''active'' else ''error''),
                              color := statusColor (if oc = SetupOk then ''active'' else ''error'')\<rparr>)
             (document st k)
      else document st k)"
  "document (setupFaceMesh oc st) k =
     (if k = ''face-status''
      then map_option (\<lambda>el. el\<lparr>textContent := (if oc = SetupOk then ''active'' else ''error''),
                              color := statusColor (if oc = SetupOk then ''active'' else ''error'')\<rparr>)
             (document st k)
      else document st k)"
  "document (setupHands oc st) k =
     (if k = ''hands-status''
      then map_option (\<lambda>el. el\<lparr>textContent := (if oc = SetupOk then ''active'' else ''error''),
                              color := statusColor (if oc = SetupOk then ''active'' else ''error'')\<rparr>)
             (document st k)
      else document st k)"
  "document (fst (startCamera t st)) k =
     (if k = ''camera-status''
      then map_option (\<lambda>el. el\<lparr>textContent := (if t then ''error'' else ''active''),
                              color := statusColor (if t then ''error'' else ''active'')\<rparr>)
             (document st k)
      else document st k)"
proof -
  have f: "document (st\<lparr>pose := a\<rparr>) = document st"
    "document (st\<lparr>faceMesh := a\<rparr>) = document st"
    "document (st\<lparr>hands := a\<rparr>) = document st"
    "document (st\<lparr>faceMesh := a, showFace := b\<rparr>) = document st"
    "document (st\<lparr>hands := a, showHands := b\<rparr>) = document st"
    for st :: tracker and a b
    by simp_all
  show "document (fst (setupPose oc st)) k =
     (if k = ''pose-status''
      then map_option (\<lambda>el. el\<lparr>textContent := (if oc = SetupOk then ''active'' else ''error''),
                              color := statusColor (if oc = SetupOk then ''active'' else ''error'')\<rparr>)
             (document st k)
      else document st k)"
    by (cases oc)
       (simp_all add: setupPose_def Let_def document_updateStatus document_log_tracker)
  show "document (setupFaceMesh oc st) k =
     (if k = ''face-status''
      then map_option (\<lambda>el. el\<lparr>textContent := (if oc = SetupOk then ''active'' else ''error''),
                              color := statusColor (if oc = SetupOk then ''active'' else ''error'')\<rparr>)
             (document st k)
      else document st k)"
    by (cases oc)
       (simp_all add: setupFaceMesh_def Let_def document_updateStatus document_log_tracker)
  show "document (setupHands oc st) k =
     (if k = ''hands-status''
      then map_option (\<lambda>el. el\<lparr>textContent := (if oc = SetupOk then ''active'' else ''error''),
                              color := statusColor (if oc = SetupOk then ''active'' else ''error'')\<rparr>)
             (document st k)
      else document st k)"
    by (cases oc)
       (simp_all add: setupHands_def Let_def document_updateStatus document_log_tracker)
  show "document (fst (startCamera t st)) k =
     (if k = ''camera-status''
      then map_option (\<lambda>el. el\<lparr>textContent := (if t then ''error'' else ''active''),
                              color := statusColor (if t then ''error'' else ''active'')\<rparr>)
             (document st k)
      else document st k)"
    by (simp add: startCamera_def Let_def document_updateStatus document_log_tracker)
qed

lemma document_hideLoading: "document (hideLoading st) = document st"
  by (simp add: hideLoading_def document_emit)

lemma document_startOptimizedTracking:
  "document (startOptimizedTracking env st) = document st"
  by (simp add: startOptimizedTracking_def document_processFrame document_log_tracker)

lemma document_init_runs:
  assumes "d ''tracking-canvas'' \<noteq> None" and "i_pose env = SetupOk"
      and "\<not> i_cameraThrows env"
  shows "document (init env (constructor c d)) ''face-status'' =
           map_option (\<lambda>el. el\<lparr>textContent := (if i_face env = SetupOk then ''active'' else ''error''),
                              color := statusColor (if i_face env = SetupOk then ''active'' else ''error'')\<rparr>)
             (d ''face-status'')"
    and "document (init env (constructor c d)) ''hands-status'' =
           map_option (\<lambda>el. el\<lparr>textContent := (if i_hands env = SetupOk then ''active'' else ''error''),
                              color := statusColor (if i_hands env = SetupOk then ''active'' else ''error'')\<rparr>)
             (d ''hands-status'')"
proof -
  have dc: "document (constructor c d) ''tracking-canvas'' \<noteq> None"
    using assms(1) by (simp add: constructor_def)
  have d0: "document (constructor c d) = d" by (simp add: constructor_def)
  note i = init_runs [OF dc assms(2,3)]
  show "document (init env (constructor c d)) ''face-status'' =
           map_option (\<lambda>el. el\<lparr>textContent := (if i_face env = SetupOk then ''active'' else ''error''),
                              color := statusColor (if i_face env = SetupOk then ''active'' else ''error'')\<rparr>)
             (d ''face-status'')"
    unfolding i
    by (simp add: document_log_tracker document_hideLoading document_startOptimizedTracking
          document_setup d0)
  show "document (init env (constructor c d)) ''hands-status'' =
           map_option (\<lambda>el. el\<lparr>textContent := (if i_hands env = SetupOk then ''active'' else ''error''),
                              color := statusColor (if i_hands env = SetupOk then ''active'' else ''error'')\<rparr>)
             (d ''hands-status'')"
    unfolding i
    by (simp add: document_log_tracker document_hideLoading document_startOptimizedTracking
          document_setup d0)
qed

text \<open>The set-up and the ticks leave the hands cache alone.\<close>

lemma handsLandmarks_basic:
  "handsLandmarks (emit e st) = handsLandmarks st"
  "handsLandmarks (draws ops st) = handsLandmarks st"
  "handsLandmarks (log_tracker ty st) = handsLandmarks st"
  "handsLandmarks (updateStatus t s st) = handsLandmarks st"
  by (simp_all add: emit_def draws_def log_tracker_def updateStatus_def split: option.splits)

lemma handsLandmarks_setup:
  "handsLandmarks (fst (setupPose oc st)) = handsLandmarks st"
  "handsLandmarks (setupFaceMesh oc st) = handsLandmarks st"
  "handsLandmarks (setupHands oc st) = handsLandmarks st"
  "handsLandmarks (fst (startCamera t st)) = handsLandmarks st"
  "handsLandmarks (hideLoading st) = handsLandmarks st"
  by (cases oc; simp add: setupPose_def setupFaceMesh_def setupHands_def startCamera_def
        hideLoading_def Let_def handsLandmarks_basic)+

lemma handsLandmarks_renderFrame:
  "handsLandmarks (fst (renderFrame env st)) = handsLandmarks st"
  by (simp add: renderFrame_def Let_def updateFPS_def resizeCanvas_def handsLandmarks_basic)

lemma handsLandmarks_tickBody: "handsLandmarks (fst (tickBody env st)) = handsLandmarks st"
proof -
  define P where "P s \<longleftrightarrow> handsLandmarks s = handsLandmarks st" for s :: tracker
  have P0: "P st" by (simp add: P_def)
  have render: "P (fst (renderFrame env s))" if "P s" for s
    using that by (simp add: P_def handsLandmarks_renderFrame)
  have send: "P (fst (sendFrame m d e t s))" if "P s" for m d e t s
    using that by (simp add: P_def sendFrame_def handsLandmarks_basic)
  have "P (fst (tickBody env st))"
  proof (cases "videoElement st \<and> t_readyState env \<ge> 2")
    case True
    have "P (fst (andThen (renderFrame env st) (\<lambda>st1.
           andThen (sendFrame Pose (pose st1) (showPose st1) (t_poseSendThrows env) st1) (\<lambda>st2.
           andThen (sendFrame Face (faceMesh st2) (showFace st2) (t_faceSendThrows env) st2) (\<lambda>st3.
           sendFrame Hands (hands st3) (showHands st3) (t_handsSendThrows env) st3)))))"
      by (rule andThen_inv [where P = P], rule render, rule P0,
          rule andThen_inv [where P = P], erule send,
          rule andThen_inv [where P = P], erule send, erule send)
    with True show ?thesis by (simp add: tickBody_def)
  next
    case False
    with P0 show ?thesis by (auto simp: tickBody_def)
  qed
  then show ?thesis by (simp add: P_def)
qed

lemma handsLandmarks_processFrame: "handsLandmarks (processFrame env st) = handsLandmarks st"
proof -
  have "handsLandmarks (fst (tickBody env (st\<lparr>lastFrameTime := t_now env\<rparr>)))
          = handsLandmarks st"
    by (simp add: handsLandmarks_tickBody)
  then show ?thesis
    by (cases "tickBody env (st\<lparr>lastFrameTime := t_now env\<rparr>)")
       (auto simp: processFrame_def Let_def handsLandmarks_basic split: completion.splits)
qed

lemma handsLandmarks_init_runs:
  assumes "d ''tracking-canvas'' \<noteq> None" and "i_pose env = SetupOk"
      and "\<not> i_cameraThrows env"
  shows "handsLandmarks (init env (constructor c d)) = Some []"
proof -
  have dc: "document (constructor c d) ''tracking-canvas'' \<noteq> None"
    using assms(1) by (simp add: constructor_def)
  show ?thesis
    unfolding init_runs [OF dc assms(2,3)]
    by (simp add: handsLandmarks_basic handsLandmarks_setup startOptimizedTracking_def
          handsLandmarks_processFrame constructor_def)
qed

lemma page0_lookup:
  "page0 ''tracking-canvas'' = Some element0"
  "page0 ''pose-status'' = Some element0"
  "page0 ''face-status'' = Some element0"
  "page0 ''hands-status'' = Some element0"
  by (simp_all add: page0_def)

lemma constructor_fields:
  "handsLandmarks (constructor c d) = Some []"
  "faceLandmarks (constructor c d) = None"
  "document (constructor c d) = d"
  by (simp_all add: constructor_def)

section \<open>Which completions refresh the status fields\<close>

text \<open>
  Claim C5 says that each of the three completion callbacks recomputes the status and
  pushes it to the status display. In the code only \<open>onPoseResults\<close> calls
  \<open>updateTrackingStatus\<close>: a face or a hands completion leaves every field of the page
  as it is. At the sample input the face field reads \<open>searching\<close>, a face completion
  delivers a face, the cache holds it, and the field still reads \<open>searching\<close>.
\<close>

theorem face_and_hands_completions_push_no_status:
  "document (onFaceResults fr now st) = document st \<and>
   document (fst (onHandsResults hr now st)) = document st \<and>
   map_option textContent (document searching0 ''face-status'') = Some ''searching'' \<and>
   faceLandmarks (onFaceResults \<lparr>multiFaceLandmarks = Some [pose33]\<rparr> 10 searching0)
     = Some pose33 \<and>
   map_option textContent
     (document (onFaceResults \<lparr>multiFaceLandmarks = Some [pose33]\<rparr> 10 searching0)
        ''face-status'') = Some ''searching''"
proof -
  have s: "map_option textContent (document searching0 ''face-status'') = Some ''searching''"
    unfolding searching0_def
    by (simp add: document_onPoseResults [where hs = "[]"] constructor_fields page0_lookup)
  have f: "faceLandmarks (onFaceResults \<lparr>multiFaceLandmarks = Some [pose33]\<rparr> 10 searching0)
     = Some pose33"
    by (simp add: faceCache_after)
  show ?thesis
    by (simp add: document_onFaceResults document_onHandsResults s f)
qed

text \<open>
  Claim C6 says that a status that is \<open>error\<close> after a failed set-up is not changed by
  a later completion. In the code \<open>updateTrackingStatus\<close> writes all three fields on
  every pose completion without looking at the failure: after a failed set-up of the
  hands detector the hands field reads \<open>error\<close>, and after the next pose completion it
  reads \<open>searching\<close>.
\<close>

theorem pose_completion_overwrites_error_status:
  "showHands (init (initWith SetupOk SetupOk NewThrows) (constructor 0 page0)) = False \<and>
   map_option textContent
     (document (init (initWith SetupOk SetupOk NewThrows) (constructor 0 page0))
        ''hands-status'') = Some ''error'' \<and>
   map_option textContent
     (document (fst (onPoseResults \<lparr>r_poseLandmarks = Some pose33,
                                     r_poseWorldLandmarks = None\<rparr> 50
                       (init (initWith SetupOk SetupOk NewThrows) (constructor 0 page0))))
        ''hands-status'') = Some ''searching''"
proof -
  let ?env = "initWith SetupOk SetupOk NewThrows"
  have a: "page0 ''tracking-canvas'' \<noteq> None" "i_pose ?env = SetupOk" "\<not> i_cameraThrows ?env"
    by (simp_all add: page0_lookup initWith_def)
  have h: "i_hands ?env = NewThrows" by (simp add: initWith_def)
  have c: "showHands (init ?env (constructor 0 page0)) = False"
    using config_init_runs [where d = page0 and env = ?env and c = 0, OF a] by (simp add: config_def h)
  have d: "document (init ?env (constructor 0 page0)) ''hands-status''
             = Some (element0\<lparr>textContent := ''error'', color := statusColor ''error''\<rparr>)"
    using document_init_runs(2) [where d = page0 and env = ?env and c = 0, OF a] by (simp add: h page0_lookup)
  have l: "handsLandmarks (init ?env (constructor 0 page0)) = Some []"
    by (rule handsLandmarks_init_runs [where d = page0 and env = ?env, OF a])
  show ?thesis
    by (simp add: c d document_onPoseResults [OF l])
qed

section \<open>The rate limit\<close>

lemma tickBody_inv:
  assumes "P st" and "\<And>s. P s \<Longrightarrow> P (fst (renderFrame env s))"
      and "\<And>s m. P s \<Longrightarrow> P (emit (Send m) s)"
  shows "P (fst (tickBody env st))"
proof -
  have send: "P (fst (sendFrame m d e t s))" if "P s" for m d e t s
    using that assms(3) by (simp add: sendFrame_def)
  show ?thesis
  proof (cases "videoElement st \<and> t_readyState env \<ge> 2")
    case True
    have "P (fst (andThen (renderFrame env st) (\<lambda>st1.
           andThen (sendFrame Pose (pose st1) (showPose st1) (t_poseSendThrows env) st1) (\<lambda>st2.
           andThen (sendFrame Face (faceMesh st2) (showFace st2) (t_faceSendThrows env) st2) (\<lambda>st3.
           sendFrame Hands (hands st3) (showHands st3) (t_handsSendThrows env) st3)))))"
      by (rule andThen_inv [where P = P], rule assms(2), rule assms(1),
          rule andThen_inv [where P = P], erule send,
          rule andThen_inv [where P = P], erule send, erule send)
    with True show ?thesis by (simp add: tickBody_def)
  next
    case False
    with assms(1) show ?thesis by (auto simp: tickBody_def)
  qed
qed

lemma lastFrameTime_basic:
  "lastFrameTime (emit e st) = lastFrameTime st"
  "lastFrameTime (draws ops st) = lastFrameTime st"
  "lastFrameTime (log_tracker ty st) = lastFrameTime st"
  "lastFrameTime (updateStatus t s st) = lastFrameTime st"
  by (simp_all add: emit_def draws_def log_tracker_def updateStatus_def split: option.splits)

lemma lastFrameTime_renderFrame:
  "lastFrameTime (fst (renderFrame env st)) = lastFrameTime st"
  by (simp add: renderFrame_def Let_def updateFPS_def resizeCanvas_def lastFrameTime_basic)

lemma lastFrameTime_tickBody: "lastFrameTime (fst (tickBody env st)) = lastFrameTime st"
  by (rule tickBody_inv [where P = "\<lambda>s. lastFrameTime s = lastFrameTime st"])
     (simp_all add: lastFrameTime_renderFrame lastFrameTime_basic)

lemma lastFrameTime_setup:
  "lastFrameTime (fst (setupPose oc st)) = lastFrameTime st"
  "lastFrameTime (setupFaceMesh oc st) = lastFrameTime st"
  "lastFrameTime (setupHands oc st) = lastFrameTime st"
  "lastFrameTime (fst (startCamera t st)) = lastFrameTime st"
  "lastFrameTime (hideLoading st) = lastFrameTime st"
  by (cases oc; simp add: setupPose_def setupFaceMesh_def setupHands_def startCamera_def
        hideLoading_def Let_def lastFrameTime_basic)+

text \<open>The two outcomes of the rate limit.\<close>

lemma processFrame_skip:
  "isTracking st \<Longrightarrow> t_now env - lastFrameTime st < frameInterval st \<Longrightarrow>
   processFrame env st = emit RequestAnimationFrame st"
  by (simp add: processFrame_def)

lemma processFrame_accept:
  assumes "isTracking st" and "\<not> (t_now env - lastFrameTime st < frameInterval st)"
  shows "lastFrameTime (processFrame env st) = t_now env"
proof -
  have "lastFrameTime (fst (tickBody env (st\<lparr>lastFrameTime := t_now env\<rparr>))) = t_now env"
    by (simp add: lastFrameTime_tickBody)
  then show ?thesis
    using assms
    by (cases "tickBody env (st\<lparr>lastFrameTime := t_now env\<rparr>)")
       (auto simp: processFrame_def Let_def lastFrameTime_basic split: completion.splits)
qed

text \<open>What an accepted tick draws.\<close>

lemma drawn_updateFPS: "drawn (updateFPS now st) = drawn st"
  by (simp add: updateFPS_def Let_def drawn_def emit_def)

lemma drawn_renderFrame:
  assumes "videoElement st" and "canvasElement st" and "t_videoWidth env \<noteq> 0"
      and "t_videoHeight env \<noteq> 0" and "\<not> t_drawImageThrows env"
  shows "drawn (fst (renderFrame env st)) =
     drawn st @ [ClearRect 0 0 (real (t_videoWidth env)) (real (t_videoHeight env)),
                 Save, Scale (- 1) 1, Translate (- real (t_videoWidth env)) 0,
                 DrawImage 0 0 (real (t_videoWidth env)) (real (t_videoHeight env)),
                 Restore]"
proof -
  have "drawn (st\<lparr>canvasWidth := w, canvasHeight := h\<rparr>) = drawn st" for w h
    by (simp add: drawn_def)
  with assms show ?thesis
    by (simp add: renderFrame_def Let_def resizeCanvas_def drawn_updateFPS drawn_draws)
qed

lemma drawn_tickBody_ok:
  assumes "videoElement st" and "canvasElement st" and "t_readyState env \<ge> 2"
      and "t_videoWidth env \<noteq> 0" and "t_videoHeight env \<noteq> 0"
      and "\<not> t_drawImageThrows env"
  shows "drawn (fst (tickBody env st)) =
     drawn st @ [ClearRect 0 0 (real (t_videoWidth env)) (real (t_videoHeight env)),
                 Save, Scale (- 1) 1, Translate (- real (t_videoWidth env)) 0,
                 DrawImage 0 0 (real (t_videoWidth env)) (real (t_videoHeight env)),
                 Restore]"
proof -
  have send: "drawn (fst (sendFrame m d e t s)) = drawn s" for m d e t s
    by (simp add: sendFrame_def drawn_emit)
  have "drawn (fst (andThen r f)) = drawn (fst r)"
    if "\<And>s. drawn (fst (f s)) = drawn s" for r f
    using that by (cases r) (auto simp: andThen_def split: completion.splits)
  note a = this
  have "drawn (fst (tickBody env st)) = drawn (fst (renderFrame env st))"
    using assms(1,3)
    by (simp add: tickBody_def a send)
  then show ?thesis by (simp add: drawn_renderFrame [OF assms(1,2,4,5,6)])
qed

lemma drawn_processFrame_accepted:
  assumes "isTracking st" and "\<not> (t_now env - lastFrameTime st < frameInterval st)"
      and "videoElement st" and "canvasElement st" and "t_readyState env \<ge> 2"
      and "t_videoWidth env \<noteq> 0" and "t_videoHeight env \<noteq> 0"
      and "\<not> t_drawImageThrows env"
  shows "drawn (processFrame env st) =
     drawn st @ [ClearRect 0 0 (real (t_videoWidth env)) (real (t_videoHeight env)),
                 Save, Scale (- 1) 1, Translate (- real (t_videoWidth env)) 0,
                 DrawImage 0 0 (real (t_videoWidth env)) (real (t_videoHeight env)),
                 Restore]"
proof -
  let ?st1 = "st\<lparr>lastFrameTime := t_now env\<rparr>"
  have "drawn (fst (tickBody env ?st1)) =
     drawn ?st1 @ [ClearRect 0 0 (real (t_videoWidth env)) (real (t_videoHeight env)),
                 Save, Scale (- 1) 1, Translate (- real (t_videoWidth env)) 0,
                 DrawImage 0 0 (real (t_videoWidth env)) (real (t_videoHeight env)),
                 Restore]"
    using assms(3,4) by (intro drawn_tickBody_ok assms(5-8)) simp_all
  moreover have "drawn ?st1 = drawn st" by (simp add: drawn_def)
  ultimately show ?thesis
    using assms(1,2)
    by (cases "tickBody env ?st1")
       (auto simp: processFrame_def Let_def drawn_emit drawn_log_tracker
             split: completion.splits)
qed

section \<open>Exceptions inside a tick\<close>



section \<open>The first ticks after the start\<close>

lemma drawn_setup:
  "drawn (fst (setupPose oc st)) = drawn st"
  "drawn (setupFaceMesh oc st) = drawn st"
  "drawn (setupHands oc st) = drawn st"
  "drawn (fst (startCamera t st)) = drawn st"
  "drawn (hideLoading st) = drawn st"
  "drawn (showErrorModal st) = drawn st"
  "drawn (st\<lparr>canvasElement := a, videoElement := b\<rparr>) = drawn st"
  "drawn (st\<lparr>isTracking := a\<rparr>) = drawn st"
proof -
  have f: "drawn (st\<lparr>pose := a\<rparr>) = drawn st"
    "drawn (st\<lparr>faceMesh := a\<rparr>) = drawn st"
    "drawn (st\<lparr>hands := a\<rparr>) = drawn st"
    "drawn (st\<lparr>faceMesh := a, showFace := b\<rparr>) = drawn st"
    "drawn (st\<lparr>hands := a, showHands := b\<rparr>) = drawn st"
    for st :: tracker and a b
    by (simp_all add: drawn_def)
  show "drawn (fst (setupPose oc st)) = drawn st"
    by (cases oc) (simp_all add: setupPose_def Let_def drawn_updateStatus drawn_log_tracker f)
  show "drawn (setupFaceMesh oc st) = drawn st"
    by (cases oc)
       (simp_all add: setupFaceMesh_def Let_def drawn_updateStatus drawn_log_tracker f)
  show "drawn (setupHands oc st) = drawn st"
    by (cases oc) (simp_all add: setupHands_def Let_def drawn_updateStatus drawn_log_tracker f)
  show "drawn (fst (startCamera t st)) = drawn st"
    by (simp add: startCamera_def Let_def drawn_updateStatus drawn_log_tracker)
  show "drawn (hideLoading st) = drawn st"
    by (simp add: hideLoading_def drawn_emit)
  show "drawn (showErrorModal st) = drawn st"
    by (simp add: showErrorModal_def drawn_emit)
qed (simp_all add: drawn_def)

lemma drawn_constructor: "drawn (constructor c d) = []"
  by (simp add: drawn_def constructor_def)

text \<open>A first tick whose clock is below the interval is skipped.\<close>

lemma init_first_tick_skipped:
  assumes "d ''tracking-canvas'' \<noteq> None" and "i_pose env = SetupOk"
      and "\<not> i_cameraThrows env" and "t_now (i_firstTick env) < 1000 / 30"
  shows "dispatched (init env (constructor c d)) = []"
    and "drawn (init env (constructor c d)) = []"
    and "lastFrameTime (init env (constructor c d)) = 0"
proof -
  let ?st = "constructor c d"
  let ?s = "fst (startCamera False
         (log_tracker Info
           (setupHands (i_hands env)
             (setupFaceMesh (i_face env)
               (fst (setupPose SetupOk
                 (log_tracker Info
                   ((waitForLoad env (log_tracker Info ?st))\<lparr>canvasElement := True,
                                              videoElement := True\<rparr>))))))))"
  let ?t = "log_tracker Info (?s\<lparr>isTracking := True\<rparr>)"
  have dc: "document ?st ''tracking-canvas'' \<noteq> None"
    using assms(1) by (simp add: constructor_def)
  have i: "init env ?st = log_tracker Info (hideLoading (processFrame (i_firstTick env) ?t))"
    using init_runs [OF dc assms(2,3)] by (simp add: startOptimizedTracking_def)
  have l: "lastFrameTime ?t = 0"
    by (simp add: lastFrameTime_basic lastFrameTime_setup constructor_def)
  have c: "config ?t = ((True, i_face env = SetupOk, i_hands env = SetupOk),
      (True, i_face env = SetupOk, i_hands env = SetupOk, True),
      (True, True, True), 1000 / 30)"
    by (simp add: config_log_tracker config_set_isTracking config_startCamera
          config_setupHands config_setupFaceMesh config_setupPose
          config_set_elements config_constructor)
  then have "isTracking ?t" and "frameInterval ?t = 1000 / 30"
    by (simp_all add: config_def)
  then have p: "processFrame (i_firstTick env) ?t = emit RequestAnimationFrame ?t"
    using assms(4) l by (intro processFrame_skip) simp_all
  show "dispatched (init env ?st) = []"
    unfolding i p
    by (simp add: dispatched_log_tracker dispatched_setup dispatched_emit
          dispatched_constructor)
  show "drawn (init env ?st) = []"
    unfolding i p
    by (simp add: drawn_log_tracker drawn_setup drawn_emit drawn_constructor)
  show "lastFrameTime (init env ?st) = 0"
    unfolding i p
    by (simp add: lastFrameTime_basic lastFrameTime_setup constructor_def)
qed

lemma emit_fields:
  "dispatched (emit RequestAnimationFrame st) = dispatched st"
  "drawn (emit RequestAnimationFrame st) = drawn st"
  "config (emit RequestAnimationFrame st) = config st"
  "lastFrameTime (emit RequestAnimationFrame st) = lastFrameTime st"
  by (simp_all add: dispatched_emit drawn_emit config_emit lastFrameTime_basic)

lemma simulated_ticks:
  fixes c :: real and d :: dom
  assumes "d ''tracking-canvas'' \<noteq> None"
  defines "s0 \<equiv> init (initWith SetupOk SetupOk SetupOk) (constructor c d)"
  defines "s2 \<equiv> run [Tick (tickAt 10), Tick (tickAt 20)] s0"
  defines "s3 \<equiv> step s2 (Tick (tickAt 40))"
  shows "dispatched s0 = [] \<and> drawn s0 = [] \<and> lastFrameTime s0 = 0 \<and>
         dispatched s2 = [] \<and> drawn s2 = [] \<and> lastFrameTime s2 = 0 \<and>
         lastFrameTime s3 = 40 \<and> dispatched s3 = [Pose, Face, Hands] \<and>
         drawn s3 = [ClearRect 0 0 640 480, Save, Scale (- 1) 1, Translate (- 640) 0,
                     DrawImage 0 0 640 480, Restore]"
proof -
  let ?env = "initWith SetupOk SetupOk SetupOk"
  have e: "i_pose ?env = SetupOk" "\<not> i_cameraThrows ?env"
    "t_now (i_firstTick ?env) < 1000 / 30" "i_face ?env = SetupOk" "i_hands ?env = SetupOk"
    by (simp_all add: initWith_def tickAt_def)
  note f0 = init_first_tick_skipped [where d = d and env = ?env and c = c, OF assms(1) e(1-3)]
  have c0: "config s0 = ((True, True, True), (True, True, True, True),
                         (True, True, True), 1000 / 30)"
    unfolding s0_def
    using config_init_runs [where d = d and env = ?env and c = c, OF assms(1) e(1,2)]
    by (simp add: e)
  have t: "t_now (tickAt u) = u" "t_readyState (tickAt u) = 4" "t_videoWidth (tickAt u) = 640"
    "t_videoHeight (tickAt u) = 480" "\<not> t_drawImageThrows (tickAt u)"
    "\<not> t_poseSendThrows (tickAt u)" "\<not> t_faceSendThrows (tickAt u)"
    "\<not> t_handsSendThrows (tickAt u)" for u
    by (simp_all add: tickAt_def)
  have k0: "isTracking s0" "frameInterval s0 = 1000 / 30" using c0 by (simp_all add: config_def)
  have l0: "lastFrameTime s0 = 0" unfolding s0_def by (rule f0(3))
  have s1: "processFrame (tickAt 10) s0 = emit RequestAnimationFrame s0"
    using k0 l0 by (intro processFrame_skip) (simp_all add: t)
  let ?s1 = "emit RequestAnimationFrame s0"
  have c1: "config ?s1 = config s0" by (rule emit_fields)
  have k1: "isTracking ?s1" "frameInterval ?s1 = 1000 / 30"
    using c0 c1 by (simp_all add: config_def)
  have s2': "processFrame (tickAt 20) ?s1 = emit RequestAnimationFrame ?s1"
    using k1 l0 by (intro processFrame_skip) (simp_all add: t emit_fields)
  have s2: "s2 = emit RequestAnimationFrame ?s1"
    by (simp add: s2_def run_def s1 s2')
  have c2: "config s2 = ((True, True, True), (True, True, True, True),
                         (True, True, True), 1000 / 30)"
    by (simp add: s2 emit_fields c0)
  then have k2: "isTracking s2" "frameInterval s2 = 1000 / 30" "videoElement s2"
    "canvasElement s2" "enabledModules s2 = [Pose, Face, Hands]"
    by (simp_all add: config_def enabledModules_def)
  have l2: "lastFrameTime s2 = 0" by (simp add: s2 emit_fields l0)
  have d2: "dispatched s2 = []" "drawn s2 = []"
    using f0(1,2) by (simp_all add: s2 emit_fields s0_def)
  have acc: "\<not> (t_now (tickAt 40) - lastFrameTime s2 < frameInterval s2)"
    by (simp add: t l2 k2)
  have "lastFrameTime s3 = 40"
    unfolding s3_def using processFrame_accept [OF k2(1) acc] by (simp add: t)
  moreover have "dispatched s3 = [Pose, Face, Hands]"
    unfolding s3_def
    using processFrame_accepted_dispatch [OF k2(1) acc k2(3)] by (simp add: t k2 d2)
  moreover have "drawn s3 = [ClearRect 0 0 640 480, Save, Scale (- 1) 1, Translate (- 640) 0,
                     DrawImage 0 0 640 480, Restore]"
    unfolding s3_def
    using drawn_processFrame_accepted [OF k2(1) acc k2(3,4)] by (simp add: t d2)
  ultimately show ?thesis
    using f0 d2 l2 by (simp add: s0_def)
qed



section \<open>The simulated tick sequence\<close>

text \<open>
  Claim C4, as the code has it. A tick of a running tracker whose clock is less than the
  frame interval after the last accepted tick only requests the next animation frame: it
  renders nothing, dispatches nothing and changes nothing else; any other tick of a
  running tracker is accepted and records its clock. The interval is 1000/30 ms and the
  last accepted time starts at 0. So with the clock readings 0, 10, 20, 40 from the
  start of tracking (all detectors set up, the video playing), the ticks at 0, 10 and 20
  are skipped, the tick at 0 too, since 0 - 0 is below the interval, and only the tick
  at 40 is accepted: it draws the mirrored video frame and dispatches to pose, face and
  hands.
\<close>

theorem scheduler_rate_limit:
  fixes c :: real and d :: dom
  shows
  "(isTracking st \<and> t_now env - lastFrameTime st < frameInterval st \<longrightarrow>
      processFrame env st = emit RequestAnimationFrame st) \<and>
   (isTracking st \<and> \<not> (t_now env - lastFrameTime st < frameInterval st) \<longrightarrow>
      lastFrameTime (processFrame env st) = t_now env) \<and>
   frameInterval (constructor c d) = 1000 / 30 \<and>
   lastFrameTime (constructor c d) = 0 \<and>
   (d ''tracking-canvas'' \<noteq> None \<longrightarrow>
      (let s0 = init (initWith SetupOk SetupOk SetupOk) (constructor c d);
           s2 = run [Tick (tickAt 10), Tick (tickAt 20)] s0;
           s3 = step s2 (Tick (tickAt 40))
       in dispatched s0 = [] \<and> drawn s0 = [] \<and> lastFrameTime s0 = 0 \<and>
          dispatched s2 = [] \<and> drawn s2 = [] \<and> lastFrameTime s2 = 0 \<and>
          lastFrameTime s3 = 40 \<and> dispatched s3 = [Pose, Face, Hands] \<and>
          drawn s3 = [ClearRect 0 0 640 480, Save, Scale (- 1) 1, Translate (- 640) 0,
                      DrawImage 0 0 640 480, Restore]))"
proof -
  have a: "isTracking st \<and> t_now env - lastFrameTime st < frameInterval st \<longrightarrow>
      processFrame env st = emit RequestAnimationFrame st"
    by (simp add: processFrame_skip)
  have b: "isTracking st \<and> \<not> (t_now env - lastFrameTime st < frameInterval st) \<longrightarrow>
      lastFrameTime (processFrame env st) = t_now env"
    by (simp add: processFrame_accept)
  have k: "frameInterval (constructor c d) = 1000 / 30" "lastFrameTime (constructor c d) = 0"
    by (simp_all add: constructor_def)
  show ?thesis
    unfolding Let_def using a b k simulated_ticks [of d c] by blast
qed

text \<open>
  The tick at 0 is not accepted: after an initialisation whose first tick reads the
  clock 0, with a playing video, nothing has been drawn or dispatched.
\<close>

theorem first_tick_at_zero_is_skipped:
  "dispatched (init (initWith SetupOk SetupOk SetupOk) (constructor 0 page0)) = [] \<and>
   drawn (init (initWith SetupOk SetupOk SetupOk) (constructor 0 page0)) = [] \<and>
   lastFrameTime (init (initWith SetupOk SetupOk SetupOk) (constructor 0 page0)) = 0 \<and>
   t_now (i_firstTick (initWith SetupOk SetupOk SetupOk)) = 0 \<and>
   t_readyState (i_firstTick (initWith SetupOk SetupOk SetupOk)) = 4 \<and>
   processFrame (tickAt 0) ready0 = emit RequestAnimationFrame ready0"
proof -
  let ?env = "initWith SetupOk SetupOk SetupOk"
  have e: "page0 ''tracking-canvas'' \<noteq> None" "i_pose ?env = SetupOk"
    "\<not> i_cameraThrows ?env" "t_now (i_firstTick ?env) < 1000 / 30"
    by (simp_all add: initWith_def tickAt_def page0_lookup)
  note f = init_first_tick_skipped [where d = page0 and env = ?env and c = 0, OF e]
  have p: "processFrame (tickAt 0) ready0 = emit RequestAnimationFrame ready0"
    by (rule processFrame_skip) (simp_all add: ready0_def constructor_def tickAt_def)
  show ?thesis
    using f p by (simp add: initWith_def tickAt_def)
qed

theorem scheduler_rate_limit_witness:
  "isTracking ready0 \<and>
   t_now (tickAt 10) - lastFrameTime ready0 < frameInterval ready0 \<and>
   processFrame (tickAt 10) ready0 = emit RequestAnimationFrame ready0 \<and>
   \<not> (t_now (tickAt 40) - lastFrameTime ready0 < frameInterval ready0) \<and>
   lastFrameTime (processFrame (tickAt 40) ready0) = 40 \<and>
   page0 ''tracking-canvas'' \<noteq> None \<and>
   dispatched (run [Tick (tickAt 10), Tick (tickAt 20)]
                 (init (initWith SetupOk SetupOk SetupOk) (constructor 0 page0))) = [] \<and>
   dispatched (step (run [Tick (tickAt 10), Tick (tickAt 20)]
                       (init (initWith SetupOk SetupOk SetupOk) (constructor 0 page0)))
                 (Tick (tickAt 40))) = [Pose, Face, Hands]"
proof -
  have h: "isTracking ready0"
    "t_now (tickAt 10) - lastFrameTime ready0 < frameInterval ready0"
    "\<not> (t_now (tickAt 40) - lastFrameTime ready0 < frameInterval ready0)"
    "page0 ''tracking-canvas'' \<noteq> None" "t_now (tickAt 40) = 40"
    by (simp_all add: ready0_def constructor_def tickAt_def page0_lookup)
  from h scheduler_rate_limit [of ready0 "tickAt 10" 0 page0]
       scheduler_rate_limit [of ready0 "tickAt 40" 0 page0]
  show ?thesis unfolding Let_def by metis
qed

section \<open>A detector that fails to set up\<close>







end
